theory Spec2Isabelle
  imports Complex_Main
begin

section \<open>Values of the SQL layer\<close>

text \<open>
  UUIDs are kept in their text form (the form \<^verbatim>\<open>v_item->>'product_id'\<close> has), \<^verbatim>\<open>numeric\<close>
  values are exact rationals, INTEGER values are unbounded integers and timestamps are
  seconds since the epoch (a day has 86400 of them; \<^verbatim>\<open>CURRENT_DATE\<close> is a day number and
  \<^verbatim>\<open>DATE(t)\<close> is \<open>t div 86400\<close>).  A column that the schema declares with a DEFAULT is
  taken to hold a value; the columns that the procedures themselves test with
  \<^verbatim>\<open>IS NULL\<close> are options.  Values are taken to fit the range of their types: the
  overflow of an INTEGER or of the precision of a \<^verbatim>\<open>DECIMAL(10,2)\<close> is not modelled.
\<close>

type_synonym uuid = string

datatype coupon_type = percentage | fixed_amount | free_shipping

datatype payment_state = pay_pending | paid | pay_failed | pay_refunded | partially_refunded

datatype order_state = pending | confirmed | processing | shipped | delivered | cancelled | refunded

datatype transaction_type = sale | restock | adjustment | return_tx

datatype pg_error =
    check_violation
  | not_null_violation
  | unique_violation
  | foreign_key_violation
  | record_not_assigned
  | cannot_set_path_in_scalar
  | division_by_zero
  | invalid_row_count_in_limit_clause
  | ambiguous_column
  | undefined_column

record product =
  p_id :: uuid
  p_sku :: string
  p_name :: string
  p_category_id :: uuid
  p_brand_id :: "uuid option"
  p_price :: rat
  p_is_active :: bool
  p_track_inventory :: bool
  p_inventory_quantity :: int
  p_low_stock_threshold :: int

record product_variant =
  pv_id :: uuid
  pv_product_id :: uuid
  pv_title :: string
  pv_price :: rat
  pv_inventory_quantity :: int
  pv_is_active :: bool

record coupon =
  c_id :: uuid
  c_code :: string
  c_type :: coupon_type
  c_value :: rat
  c_minimum_amount :: rat
  c_usage_limit :: "int option"
  c_usage_count :: int
  c_is_active :: bool
  c_starts_at :: "int option"
  c_expires_at :: "int option"

record order_row =
  o_id :: uuid
  o_order_number :: string
  o_user_id :: uuid
  o_status :: order_state
  o_payment_status :: payment_state
  o_subtotal :: rat
  o_tax_amount :: rat
  o_shipping_amount :: rat
  o_discount_amount :: rat
  o_total_amount :: rat
  o_shipping_address :: string
  o_billing_address :: string
  o_created_at :: int

record order_item =
  oi_order_id :: uuid
  oi_product_id :: uuid
  oi_variant_id :: "uuid option"
  oi_quantity :: int
  oi_unit_price :: rat
  oi_total_price :: rat
  oi_product_name :: string
  oi_product_sku :: string
  oi_variant_title :: "string option"

record inventory_transaction =
  it_product_id :: uuid
  it_variant_id :: "uuid option"
  it_type :: transaction_type
  it_quantity_change :: int
  it_quantity_after :: int
  it_reference_id :: uuid
  it_reference_type :: string

record coupon_usage =
  cu_coupon_id :: uuid
  cu_order_id :: uuid
  cu_user_id :: uuid
  cu_discount_amount :: rat

record cart_item =
  ci_user_id :: uuid
  ci_product_id :: uuid
  ci_variant_id :: "uuid option"
  ci_quantity :: int

record review =
  rv_product_id :: uuid
  rv_rating :: int
  rv_is_approved :: bool

record db =
  users :: "uuid list"
  products :: "product list"
  product_variants :: "product_variant list"
  coupons :: "coupon list"
  orders :: "order_row list"
  order_items :: "order_item list"
  inventory_transactions :: "inventory_transaction list"
  coupon_usages :: "coupon_usage list"
  cart_items :: "cart_item list"
  reviews :: "review list"

text \<open>One element of \<^verbatim>\<open>p_items\<close>: \<^verbatim>\<open>{"product_id": .., "variant_id": .., "quantity": n}\<close>.\<close>

record order_line =
  ol_product_id :: uuid
  ol_variant_id :: "uuid option"
  ol_quantity :: int

text \<open>The row that \<^verbatim>\<open>process_order\<close> returns.\<close>

record order_result =
  res_success :: bool
  res_order_id :: "uuid option"
  res_total_amount :: rat
  res_message :: string

section \<open>Arithmetic on \<^verbatim>\<open>numeric\<close>\<close>

text \<open>
  Sums, differences and products of \<^verbatim>\<open>numeric\<close> values are exact.  Rounding is to the
  nearest value of \<open>s\<close> decimals, ties away from zero: \<^verbatim>\<open>ROUND(x, s)\<close> does it, and so
  does the write of a value into a column of scale \<open>s\<close>.
\<close>

definition round_scale :: "nat \<Rightarrow> rat \<Rightarrow> rat" where
  "round_scale s x = (if 0 \<le> x then of_int \<lfloor>x * 10 ^ s + 1 / 2\<rfloor> / 10 ^ s
                      else - (of_int \<lfloor>- x * 10 ^ s + 1 / 2\<rfloor> / 10 ^ s))"

text \<open>\<^verbatim>\<open>ROUND(x, 2)\<close>, and the value that a \<^verbatim>\<open>DECIMAL(10,2)\<close> column stores for \<open>x\<close>.\<close>

definition round2 :: "rat \<Rightarrow> rat" where
  "round2 x = (if 0 \<le> x then of_int \<lfloor>x * 100 + 1 / 2\<rfloor> / 100
               else - (of_int \<lfloor>- x * 100 + 1 / 2\<rfloor> / 100))"

text \<open>
  A quotient is not exact.  \<^verbatim>\<open>numeric_div\<close> picks a result scale (\<^verbatim>\<open>select_div_scale\<close> of
  PostgreSQL's \<^verbatim>\<open>numeric.c\<close>) and rounds the quotient to it.  The scale is \<open>16 - 4 * q\<close>,
  where \<open>q\<close> estimates the weight of the quotient in base 10000 from the weights and the
  first base 10000 digits of the operands, and it is at least the display scale of the
  operands and at most 1000.  \<^verbatim>\<open>AVG\<close> over \<^verbatim>\<open>bigint\<close> or \<^verbatim>\<open>numeric\<close> values is this quotient
  of the sum by the number of rows; here for sums of whole numbers, whose display scale
  is 0.
\<close>

fun nbase_weight :: "nat \<Rightarrow> nat" where
  "nbase_weight n = (if n < 10000 then 0 else Suc (nbase_weight (n div 10000)))"

fun nbase_first_digit :: "nat \<Rightarrow> nat" where
  "nbase_first_digit n = (if n < 10000 then n else nbase_first_digit (n div 10000))"

declare nbase_weight.simps [simp del] nbase_first_digit.simps [simp del]

definition select_div_scale :: "nat \<Rightarrow> nat \<Rightarrow> nat" where
  "select_div_scale n m =
     (let qweight = int (nbase_weight n) - int (nbase_weight m)
                    - (if nbase_first_digit n \<le> nbase_first_digit m then 1 else 0)
      in nat (min (max (16 - qweight * 4) 0) 1000))"

definition numeric_div :: "int \<Rightarrow> nat \<Rightarrow> rat" where
  "numeric_div a n = round_scale (select_div_scale (nat \<bar>a\<bar>) n) (of_int a / of_nat n)"

text \<open>\<^verbatim>\<open>AVG\<close>: NULL over no rows.\<close>

definition avg :: "int list \<Rightarrow> rat option" where
  "avg xs = (if xs = [] then None else Some (numeric_div (sum_list xs) (length xs)))"

section \<open>process\_order (stored-procedures.sql, lines 5--202)\<close>

text \<open>\<^verbatim>\<open>RTRIM(s, chars)\<close>: drop the longest suffix made of characters of \<^verbatim>\<open>chars\<close>.\<close>

definition rtrim :: "string \<Rightarrow> string \<Rightarrow> string" where
  "rtrim s chars = rev (dropWhile (\<lambda>c. c \<in> set chars) (rev s))"

text \<open>
  The first loop (lines 39--83).  It either leaves the function through one of the two
  \<^verbatim>\<open>RETURN\<close>s for a row that is not found, or runs to its end with \<^verbatim>\<open>v_subtotal\<close> and
  \<^verbatim>\<open>v_insufficient_stock\<close>.
\<close>

datatype validation = NotFound string | Validated rat string

fun validate_items :: "db \<Rightarrow> order_line list \<Rightarrow> rat \<Rightarrow> string \<Rightarrow> validation" where
  "validate_items d [] v_subtotal v_insufficient_stock = Validated v_subtotal v_insufficient_stock"
| "validate_items d (v_item # rest) v_subtotal v_insufficient_stock =
     (case find (\<lambda>p. p_id p = ol_product_id v_item \<and> p_is_active p) (products d) of
        None \<Rightarrow> NotFound (''Product not found: '' @ ol_product_id v_item)
      | Some v_product \<Rightarrow>
          (case ol_variant_id v_item of
             Some vid \<Rightarrow>
               (case find (\<lambda>v. pv_id v = vid \<and> pv_product_id v = p_id v_product \<and> pv_is_active v)
                       (product_variants d) of
                  None \<Rightarrow> NotFound (''Product variant not found: '' @ vid)
                | Some v_variant \<Rightarrow>
                    validate_items d rest
                      (v_subtotal + pv_price v_variant * of_int (ol_quantity v_item))
                      (if pv_inventory_quantity v_variant < ol_quantity v_item
                       then v_insufficient_stock @ p_name v_product @ '' ('' @ pv_title v_variant @ ''), ''
                       else v_insufficient_stock))
           | None \<Rightarrow>
               validate_items d rest
                 (v_subtotal + p_price v_product * of_int (ol_quantity v_item))
                 (if p_inventory_quantity v_product < ol_quantity v_item
                  then v_insufficient_stock @ p_name v_product @ '', ''
                  else v_insufficient_stock)))"

text \<open>
  The record variable \<^verbatim>\<open>v_coupon\<close>: never assigned (no coupon code was given), assigned
  NULLs by a \<^verbatim>\<open>SELECT INTO\<close> that found no row, or assigned a row.
\<close>

datatype coupon_var = NotAssigned | NoRow | Row coupon

text \<open>The \<^verbatim>\<open>WHERE\<close> clause of lines 96--100.\<close>

definition coupon_selectable :: "string \<Rightarrow> int \<Rightarrow> coupon \<Rightarrow> bool" where
  "coupon_selectable p_coupon_code now c \<longleftrightarrow>
     c_code c = p_coupon_code \<and> c_is_active c
     \<and> (case c_starts_at c of None \<Rightarrow> True | Some t \<Rightarrow> t \<le> now)
     \<and> (case c_expires_at c of None \<Rightarrow> True | Some t \<Rightarrow> now \<le> t)
     \<and> (case c_usage_limit c of None \<Rightarrow> True | Some l \<Rightarrow> c_usage_count c < l)"

text \<open>
  Lines 92--114: the coupon variable, \<^verbatim>\<open>v_discount_amount\<close> (initially 0) and
  \<^verbatim>\<open>v_shipping_amount\<close> (initially 10.00) after the coupon block.  The quotient of line
  106 is exact: \<^verbatim>\<open>coupons.value\<close> has two decimals, its hundredth has four, and the
  division keeps twelve or more.
\<close>

definition apply_coupon :: "coupon list \<Rightarrow> string option \<Rightarrow> rat \<Rightarrow> int \<Rightarrow> coupon_var \<times> rat \<times> rat" where
  "apply_coupon cs p_coupon_code v_subtotal now =
     (case p_coupon_code of
        None \<Rightarrow> (NotAssigned, 0, 10)
      | Some code \<Rightarrow>
          (case find (coupon_selectable code now) cs of
             None \<Rightarrow> (NoRow, 0, 10)
           | Some v_coupon \<Rightarrow>
               if c_minimum_amount v_coupon \<le> v_subtotal then
                 (case c_type v_coupon of
                    percentage \<Rightarrow> (Row v_coupon, v_subtotal * (c_value v_coupon / 100), 10)
                  | fixed_amount \<Rightarrow> (Row v_coupon, min (c_value v_coupon) v_subtotal, 10)
                  | free_shipping \<Rightarrow> (Row v_coupon, 0, 0))
               else (Row v_coupon, 0, 10)))"

text \<open>
  \<^verbatim>\<open>INSERT INTO orders\<close> (lines 121--129).  The five amounts of the table are
  \<^verbatim>\<open>DECIMAL(10,2)\<close> columns (schema.sql, lines 226--230), while the variables of the
  function are \<^verbatim>\<open>DECIMAL\<close> without a scale: the row that is stored holds the amounts
  rounded to two decimals.  Then the constraints of the table: the primary key, the
  unique order number and the reference to \<^verbatim>\<open>users\<close>.
\<close>

definition stored_order :: "order_row \<Rightarrow> order_row" where
  "stored_order row =
     row\<lparr>o_subtotal := round2 (o_subtotal row), o_tax_amount := round2 (o_tax_amount row),
         o_shipping_amount := round2 (o_shipping_amount row),
         o_discount_amount := round2 (o_discount_amount row),
         o_total_amount := round2 (o_total_amount row)\<rparr>"

definition insert_order :: "db \<Rightarrow> order_row \<Rightarrow> pg_error + db" where
  "insert_order d row =
     (if o_id row \<in> set (map o_id (orders d)) then Inl unique_violation
      else if o_order_number row \<in> set (map o_order_number (orders d)) then Inl unique_violation
      else if o_user_id row \<notin> set (users d) then Inl foreign_key_violation
      else Inr (d\<lparr>orders := orders d @ [stored_order row]\<rparr>))"

text \<open>
  \<^verbatim>\<open>INSERT INTO order_items\<close> under the three CHECK constraints of the table.  The two
  prices of a row are a price read from a \<^verbatim>\<open>DECIMAL(10,2)\<close> column of the catalog and its
  product with an INTEGER: values of two decimals, which the columns store as they are.
\<close>

definition insert_order_item :: "db \<Rightarrow> order_item \<Rightarrow> pg_error + db" where
  "insert_order_item d row =
     (if oi_quantity row > 0 \<and> oi_unit_price row \<ge> 0 \<and> oi_total_price row \<ge> 0
      then Inr (d\<lparr>order_items := order_items d @ [row]\<rparr>)
      else Inl check_violation)"

text \<open>
  The two \<^verbatim>\<open>UPDATE ... SET inventory_quantity = inventory_quantity - n WHERE id = ..\<close>
  statements, under \<^verbatim>\<open>CHECK (inventory_quantity >= 0)\<close>.
\<close>

definition update_variant_inventory :: "db \<Rightarrow> uuid \<Rightarrow> int \<Rightarrow> pg_error + db" where
  "update_variant_inventory d vid n =
     (let rows = map (\<lambda>v. if pv_id v = vid
                            then v\<lparr>pv_inventory_quantity := pv_inventory_quantity v - n\<rparr> else v)
                     (product_variants d)
      in if list_all (\<lambda>v. pv_inventory_quantity v \<ge> 0) (filter (\<lambda>v. pv_id v = vid) rows)
         then Inr (d\<lparr>product_variants := rows\<rparr>) else Inl check_violation)"

definition update_product_inventory :: "db \<Rightarrow> uuid \<Rightarrow> int \<Rightarrow> pg_error + db" where
  "update_product_inventory d pid n =
     (let rows = map (\<lambda>p. if p_id p = pid
                            then p\<lparr>p_inventory_quantity := p_inventory_quantity p - n\<rparr> else p)
                     (products d)
      in if list_all (\<lambda>p. p_inventory_quantity p \<ge> 0) (filter (\<lambda>p. p_id p = pid) rows)
         then Inr (d\<lparr>products := rows\<rparr>) else Inl check_violation)"

definition insert_inventory_transaction :: "db \<Rightarrow> inventory_transaction \<Rightarrow> db" where
  "insert_inventory_transaction d row = d\<lparr>inventory_transactions := inventory_transactions d @ [row]\<rparr>"

text \<open>
  One pass of the second loop (lines 132--187).  Its two \<^verbatim>\<open>SELECT INTO\<close>s have no
  \<^verbatim>\<open>is_active\<close> filter; a row that is not found leaves NULLs, on which the \<^verbatim>\<open>INSERT\<close> into
  \<^verbatim>\<open>order_items\<close> fails.
\<close>

definition place_item :: "db \<Rightarrow> uuid \<Rightarrow> order_line \<Rightarrow> pg_error + db" where
  "place_item d v_order_id v_item =
     (case find (\<lambda>p. p_id p = ol_product_id v_item) (products d) of
        None \<Rightarrow> Inl not_null_violation
      | Some v_product \<Rightarrow>
          (case ol_variant_id v_item of
             Some vid \<Rightarrow>
               (case find (\<lambda>v. pv_id v = vid) (product_variants d) of
                  None \<Rightarrow> Inl not_null_violation
                | Some v_variant \<Rightarrow>
                    (case insert_order_item d
                            \<lparr>oi_order_id = v_order_id, oi_product_id = p_id v_product,
                             oi_variant_id = Some (pv_id v_variant), oi_quantity = ol_quantity v_item,
                             oi_unit_price = pv_price v_variant,
                             oi_total_price = pv_price v_variant * of_int (ol_quantity v_item),
                             oi_product_name = p_name v_product, oi_product_sku = p_sku v_product,
                             oi_variant_title = Some (pv_title v_variant)\<rparr> of
                       Inl e \<Rightarrow> Inl e
                     | Inr d1 \<Rightarrow>
                         (case update_variant_inventory d1 (pv_id v_variant) (ol_quantity v_item) of
                            Inl e \<Rightarrow> Inl e
                          | Inr d2 \<Rightarrow>
                              Inr (insert_inventory_transaction d2
                                \<lparr>it_product_id = p_id v_product, it_variant_id = Some (pv_id v_variant),
                                 it_type = sale, it_quantity_change = - ol_quantity v_item,
                                 it_quantity_after = pv_inventory_quantity v_variant - ol_quantity v_item,
                                 it_reference_id = v_order_id, it_reference_type = ''order''\<rparr>))))
           | None \<Rightarrow>
               (case insert_order_item d
                       \<lparr>oi_order_id = v_order_id, oi_product_id = p_id v_product,
                        oi_variant_id = None, oi_quantity = ol_quantity v_item,
                        oi_unit_price = p_price v_product,
                        oi_total_price = p_price v_product * of_int (ol_quantity v_item),
                        oi_product_name = p_name v_product, oi_product_sku = p_sku v_product,
                        oi_variant_title = None\<rparr> of
                  Inl e \<Rightarrow> Inl e
                | Inr d1 \<Rightarrow>
                    (case update_product_inventory d1 (p_id v_product) (ol_quantity v_item) of
                       Inl e \<Rightarrow> Inl e
                     | Inr d2 \<Rightarrow>
                         Inr (insert_inventory_transaction d2
                           \<lparr>it_product_id = p_id v_product, it_variant_id = None,
                            it_type = sale, it_quantity_change = - ol_quantity v_item,
                            it_quantity_after = p_inventory_quantity v_product - ol_quantity v_item,
                            it_reference_id = v_order_id, it_reference_type = ''order''\<rparr>)))))"

fun place_items :: "db \<Rightarrow> uuid \<Rightarrow> order_line list \<Rightarrow> pg_error + db" where
  "place_items d v_order_id [] = Inr d"
| "place_items d v_order_id (v_item # rest) =
     (case place_item d v_order_id v_item of
        Inl e \<Rightarrow> Inl e
      | Inr d' \<Rightarrow> place_items d' v_order_id rest)"

text \<open>
  Lines 189--195.  Reading a field of a record variable that was never assigned raises
  \<^verbatim>\<open>record "v_coupon" is not assigned yet\<close>; after a \<^verbatim>\<open>SELECT INTO\<close> without a row the
  field is NULL.  \<^verbatim>\<open>coupon_usages\<close> is unique in \<^verbatim>\<open>(coupon_id, order_id)\<close>, and its
  \<^verbatim>\<open>discount_amount\<close> is a \<^verbatim>\<open>DECIMAL(10,2)\<close> column.
\<close>

definition record_coupon_usage :: "db \<Rightarrow> coupon_var \<Rightarrow> uuid \<Rightarrow> uuid \<Rightarrow> rat \<Rightarrow> pg_error + db" where
  "record_coupon_usage d v_coupon v_order_id p_user_id v_discount_amount =
     (case v_coupon of
        NotAssigned \<Rightarrow> Inl record_not_assigned
      | NoRow \<Rightarrow> Inr d
      | Row c \<Rightarrow>
          if (c_id c, v_order_id) \<in> set (map (\<lambda>u. (cu_coupon_id u, cu_order_id u)) (coupon_usages d))
          then Inl unique_violation
          else Inr (d\<lparr>coupons := map (\<lambda>k. if c_id k = c_id c
                                             then k\<lparr>c_usage_count := c_usage_count k + 1\<rparr> else k)
                                       (coupons d),
                       coupon_usages := coupon_usages d @
                         [\<lparr>cu_coupon_id = c_id c, cu_order_id = v_order_id,
                           cu_user_id = p_user_id,
                           cu_discount_amount = round2 v_discount_amount\<rparr>]\<rparr>))"

definition clear_cart :: "db \<Rightarrow> uuid \<Rightarrow> db" where
  "clear_cart d p_user_id = d\<lparr>cart_items := filter (\<lambda>ci. ci_user_id ci \<noteq> p_user_id) (cart_items d)\<rparr>"

text \<open>
  The row of the \<^verbatim>\<open>VALUES\<close> list of lines 125--129, with the defaults of the columns that
  the list leaves out.
\<close>

definition order_values ::
  "uuid \<Rightarrow> string \<Rightarrow> uuid \<Rightarrow> rat \<Rightarrow> rat \<Rightarrow> rat \<Rightarrow> rat \<Rightarrow> rat
     \<Rightarrow> string \<Rightarrow> string option \<Rightarrow> int \<Rightarrow> order_row" where
  "order_values v_order_id v_order_number p_user_id v_subtotal v_tax_amount v_shipping_amount
       v_discount_amount v_total_amount p_shipping_address p_billing_address now =
     \<lparr>o_id = v_order_id, o_order_number = v_order_number, o_user_id = p_user_id,
      o_status = pending, o_payment_status = pay_pending,
      o_subtotal = v_subtotal, o_tax_amount = v_tax_amount,
      o_shipping_amount = v_shipping_amount,
      o_discount_amount = v_discount_amount, o_total_amount = v_total_amount,
      o_shipping_address = p_shipping_address,
      o_billing_address = (case p_billing_address of None \<Rightarrow> p_shipping_address | Some b \<Rightarrow> b),
      o_created_at = now\<rparr>"

definition order_failed :: "string \<Rightarrow> order_result" where
  "order_failed msg = \<lparr>res_success = False, res_order_id = None, res_total_amount = 0, res_message = msg\<rparr>"

text \<open>
  The body of the function.  \<^verbatim>\<open>v_order_id\<close> and \<^verbatim>\<open>v_order_number\<close> are the values that
  lines 34--36 generate and \<^verbatim>\<open>now\<close> is \<^verbatim>\<open>CURRENT_TIMESTAMP\<close>.  \<^verbatim>\<open>Inl\<close> is an error raised
  out of the function.
\<close>

definition process_order ::
  "db \<Rightarrow> uuid \<Rightarrow> order_line list \<Rightarrow> string \<Rightarrow> string option \<Rightarrow> string option
     \<Rightarrow> uuid \<Rightarrow> string \<Rightarrow> int \<Rightarrow> pg_error + (db \<times> order_result)" where
  "process_order d p_user_id p_items p_shipping_address p_billing_address p_coupon_code
       v_order_id v_order_number now =
     (case validate_items d p_items 0 [] of
        NotFound msg \<Rightarrow> Inr (d, order_failed msg)
      | Validated v_subtotal v_insufficient_stock \<Rightarrow>
          if length v_insufficient_stock > 0
          then Inr (d, order_failed (''Insufficient stock for: '' @ rtrim v_insufficient_stock '', ''))
          else
            (case apply_coupon (coupons d) p_coupon_code v_subtotal now of
               (v_coupon, v_discount_amount, v_shipping_amount) \<Rightarrow>
                 (let v_tax_amount = (v_subtotal - v_discount_amount) * (8 / 100);
                      v_total_amount = v_subtotal + v_tax_amount + v_shipping_amount - v_discount_amount
                  in case insert_order d
                            (order_values v_order_id v_order_number p_user_id v_subtotal v_tax_amount
                               v_shipping_amount v_discount_amount v_total_amount
                               p_shipping_address p_billing_address now) of
                       Inl e \<Rightarrow> Inl e
                     | Inr d1 \<Rightarrow>
                         (case place_items d1 v_order_id p_items of
                            Inl e \<Rightarrow> Inl e
                          | Inr d2 \<Rightarrow>
                              (case record_coupon_usage d2 v_coupon v_order_id p_user_id v_discount_amount of
                                 Inl e \<Rightarrow> Inl e
                               | Inr d3 \<Rightarrow>
                                   Inr (clear_cart d3 p_user_id,
                                        \<lparr>res_success = True, res_order_id = Some v_order_id,
                                         res_total_amount = v_total_amount,
                                         res_message = ''Order processed successfully''\<rparr>))))))"

text \<open>
  The function called as a statement: an error that leaves the function aborts the
  statement, and the database is as it was before the call.
\<close>

datatype outcome = Raised pg_error | Returned order_result

definition call_process_order ::
  "db \<Rightarrow> uuid \<Rightarrow> order_line list \<Rightarrow> string \<Rightarrow> string option \<Rightarrow> string option
     \<Rightarrow> uuid \<Rightarrow> string \<Rightarrow> int \<Rightarrow> db \<times> outcome" where
  "call_process_order d p_user_id p_items p_shipping_address p_billing_address p_coupon_code
       v_order_id v_order_number now =
     (case process_order d p_user_id p_items p_shipping_address p_billing_address p_coupon_code
             v_order_id v_order_number now of
        Inl e \<Rightarrow> (d, Raised e)
      | Inr (d', r) \<Rightarrow> (d', Returned r))"

section \<open>calculate\_dynamic\_price (stored-procedures.sql, lines 357--458)\<close>

text \<open>
  A \<^verbatim>\<open>jsonb\<close> value is a string scalar or an object.  \<^verbatim>\<open>jsonb_set(target, '{key}', v)\<close>
  sets the key of an object and raises \<^verbatim>\<open>cannot set path in scalar\<close> on a scalar target.
  The keys of an object are kept in the order in which they were set.
\<close>

datatype jsonb = JString string | JObject "(string \<times> jsonb) list"

fun set_key :: "string \<Rightarrow> jsonb \<Rightarrow> (string \<times> jsonb) list \<Rightarrow> (string \<times> jsonb) list" where
  "set_key k v [] = [(k, v)]"
| "set_key k v ((k', v') # kvs) = (if k' = k then (k, v) # kvs else (k', v') # set_key k v kvs)"

fun jsonb_set :: "jsonb \<Rightarrow> string \<Rightarrow> jsonb \<Rightarrow> pg_error + jsonb" where
  "jsonb_set (JString s) k new_value = Inl cannot_set_path_in_scalar"
| "jsonb_set (JObject kvs) k new_value = Inr (JObject (set_key k new_value kvs))"

text \<open>Lines 384--391: the factor, and the label that the same branches write.\<close>

definition inventory_factor :: "product \<Rightarrow> rat" where
  "inventory_factor v_product =
     (if p_inventory_quantity v_product \<le> p_low_stock_threshold v_product then 1.1
      else if p_inventory_quantity v_product > 100 then 0.95
      else 1.0)"

definition inventory_label :: "product \<Rightarrow> jsonb \<Rightarrow> pg_error + jsonb" where
  "inventory_label v_product v_factors =
     (if p_inventory_quantity v_product \<le> p_low_stock_threshold v_product
      then jsonb_set v_factors ''inventory'' (JString ''Low stock premium'')
      else if p_inventory_quantity v_product > 100
      then jsonb_set v_factors ''inventory'' (JString ''Overstock discount'')
      else Inr v_factors)"

text \<open>
  The \<^verbatim>\<open>recent_sales\<close> CTE (lines 394--401): \<^verbatim>\<open>COUNT(*)\<close> of the rows of \<^verbatim>\<open>order_items\<close>
  joined with their paid order of the last seven days, for the product.
\<close>

definition sale_count :: "db \<Rightarrow> uuid \<Rightarrow> int \<Rightarrow> nat" where
  "sale_count d p_product_id today =
     length [(oi, od). oi \<leftarrow> order_items d, od \<leftarrow> orders d,
               oi_order_id oi = o_id od \<and> oi_product_id oi = p_product_id
               \<and> o_created_at od \<ge> (today - 7) * 86400 \<and> o_payment_status od = paid]"

text \<open>The two \<^verbatim>\<open>CASE\<close> expressions of lines 403--412.\<close>

definition demand_factor :: "nat \<Rightarrow> rat" where
  "demand_factor n = (if n > 10 then 1.05 else if n < 2 then 0.9 else 1.0)"

definition demand_label :: "nat \<Rightarrow> string" where
  "demand_label n =
     (if n > 10 then ''High demand premium''
      else if n < 2 then ''Low demand discount''
      else ''Normal demand'')"

text \<open>
  The \<^verbatim>\<open>customer_stats\<close> CTE (lines 420--426): \<^verbatim>\<open>COUNT(*)\<close> and \<^verbatim>\<open>SUM(total_amount)\<close> of
  the paid orders of the user; the sum of no rows is NULL.
\<close>

definition customer_stats :: "db \<Rightarrow> uuid \<Rightarrow> nat \<times> rat option" where
  "customer_stats d p_user_id =
     (let os = filter (\<lambda>od. o_user_id od = p_user_id \<and> o_payment_status od = paid) (orders d)
      in (length os, if os = [] then None else Some (sum_list (map o_total_amount os))))"

text \<open>The \<^verbatim>\<open>CASE\<close> of lines 428--433; a comparison with NULL is not true.\<close>

definition loyalty_factor :: "nat \<times> rat option \<Rightarrow> rat" where
  "loyalty_factor stats =
     (case stats of (order_count, total_spent) \<Rightarrow>
        if (case total_spent of None \<Rightarrow> False | Some t \<Rightarrow> t > 1000) then 0.9
        else if (case total_spent of None \<Rightarrow> False | Some t \<Rightarrow> t > 500) then 0.95
        else if order_count > 5 then 0.97
        else 1.0)"

text \<open>Lines 442--446, with \<^verbatim>\<open>EXTRACT(MONTH FROM CURRENT_DATE)\<close> as \<open>month\<close>.\<close>

definition seasonal_factor :: "nat \<Rightarrow> rat" where
  "seasonal_factor month = (if month = 11 \<or> month = 12 then 1.05 else 1.0)"

text \<open>The row that \<^verbatim>\<open>calculate_dynamic_price\<close> returns.\<close>

record price_row =
  base_price :: "rat option"
  dynamic_price :: "rat option"
  discount_percentage :: "rat option"
  pricing_factors :: jsonb

text \<open>
  The body of the function.  Line 413 assigns the demand label to \<^verbatim>\<open>v_factors\<close> itself
  (\<^verbatim>\<open>SELECT .. INTO v_demand_factor, v_factors\<close>), so that \<^verbatim>\<open>v_factors\<close> is a string scalar
  when line 416 calls \<^verbatim>\<open>jsonb_set\<close> on it.  A product that is not found leaves NULLs in
  \<^verbatim>\<open>v_product\<close>: no inventory branch is taken and the prices are NULL.  The quotient of
  line 450 is written as the exact one.
\<close>

definition calculate_dynamic_price ::
  "db \<Rightarrow> uuid \<Rightarrow> uuid option \<Rightarrow> int \<Rightarrow> nat \<Rightarrow> pg_error + price_row" where
  "calculate_dynamic_price d p_product_id p_user_id today month =
     (let v_product = find (\<lambda>p. p_id p = p_product_id) (products d) in
      case (case v_product of None \<Rightarrow> Inr (JObject []) | Some p \<Rightarrow> inventory_label p (JObject [])) of
        Inl e \<Rightarrow> Inl e
      | Inr v_factors0 \<Rightarrow>
          (let v_factors1 = JString (demand_label (sale_count d p_product_id today)) in
           case jsonb_set v_factors1 ''demand'' v_factors1 of
             Inl e \<Rightarrow> Inl e
           | Inr v_factors2 \<Rightarrow>
               (case (case p_user_id of
                        None \<Rightarrow> Inr v_factors2
                      | Some u \<Rightarrow>
                          if loyalty_factor (customer_stats d u) < 1.0
                          then jsonb_set v_factors2 ''loyalty'' (JString ''Customer loyalty discount'')
                          else Inr v_factors2) of
                  Inl e \<Rightarrow> Inl e
                | Inr v_factors3 \<Rightarrow>
                    (case (if month = 11 \<or> month = 12
                           then jsonb_set v_factors3 ''seasonal'' (JString ''Holiday season premium'')
                           else Inr v_factors3) of
                       Inl e \<Rightarrow> Inl e
                     | Inr v_factors4 \<Rightarrow>
                         (case v_product of
                            None \<Rightarrow>
                              Inr \<lparr>base_price = None, dynamic_price = None,
                                   discount_percentage = None, pricing_factors = v_factors4\<rparr>
                          | Some p \<Rightarrow>
                              if p_price p = 0 then Inl division_by_zero
                              else
                                (let v_final_price =
                                       p_price p * inventory_factor p
                                       * demand_factor (sale_count d p_product_id today)
                                       * (case p_user_id of None \<Rightarrow> 1.0
                                          | Some u \<Rightarrow> loyalty_factor (customer_stats d u))
                                       * seasonal_factor month
                                 in Inr \<lparr>base_price = Some (p_price p),
                                         dynamic_price = Some (round2 v_final_price),
                                         discount_percentage =
                                           Some (round2 ((p_price p - v_final_price) / p_price p * 100)),
                                         pricing_factors = v_factors4\<rparr>))))))"

section \<open>calculate\_reorder\_points (stored-procedures.sql, lines 460--523)\<close>

text \<open>A cast of a \<^verbatim>\<open>numeric\<close> to \<^verbatim>\<open>INTEGER\<close>: to the nearest integer, ties away from zero.\<close>

definition to_integer :: "rat \<Rightarrow> int" where
  "to_integer x = (if 0 \<le> x then \<lfloor>x + 1 / 2\<rfloor> else - \<lfloor>- x + 1 / 2\<rfloor>)"

text \<open>
  The rows of \<^verbatim>\<open>order_items\<close> joined with their paid order of the last thirty days, for
  one product, as (sale date, quantity); and the \<^verbatim>\<open>daily_sales\<close> subquery (lines
  485--493), which groups them by the sale date and sums the quantities of each date.
\<close>

definition paid_sales :: "db \<Rightarrow> int \<Rightarrow> uuid \<Rightarrow> (int \<times> int) list" where
  "paid_sales d today pid =
     [(o_created_at od div 86400, oi_quantity oi). oi \<leftarrow> order_items d, od \<leftarrow> orders d,
        oi_order_id oi = o_id od \<and> oi_product_id oi = pid
        \<and> o_payment_status od = paid \<and> o_created_at od \<ge> (today - 30) * 86400]"

definition daily_sales :: "db \<Rightarrow> int \<Rightarrow> uuid \<Rightarrow> int list" where
  "daily_sales d today pid =
     (let s = paid_sales d today pid
      in map (\<lambda>sale_date. sum_list (map snd (filter (\<lambda>r. fst r = sale_date) s)))
             (remdups (map fst s)))"

datatype urgency = CRITICAL | HIGH | MEDIUM | LOW

record reorder_row =
  rr_product_id :: uuid
  rr_product_name :: string
  rr_current_stock :: int
  rr_avg_daily_sales :: rat
  rr_lead_time_days :: int
  rr_safety_stock :: int
  rr_reorder_point :: int
  rr_suggested_order_quantity :: int
  rr_urgency_level :: urgency

text \<open>
  The columns of the \<^verbatim>\<open>sales_data\<close> CTE for one group \<^verbatim>\<open>(p.id, p.name,
  p.inventory_quantity)\<close>: the average of the product's daily sales, NULL when the left
  join found none.  \<^verbatim>\<open>daily_sales.quantity\<close> is a \<^verbatim>\<open>SUM\<close> of INTEGERs, a \<^verbatim>\<open>bigint\<close>.
\<close>

definition avg_daily_sales :: "db \<Rightarrow> int \<Rightarrow> uuid \<Rightarrow> rat" where
  "avg_daily_sales d today pid =
     (case avg (daily_sales d today pid) of None \<Rightarrow> 0 | Some a \<Rightarrow> a)"

definition safety_stock :: "db \<Rightarrow> int \<Rightarrow> uuid \<Rightarrow> rat" where
  "safety_stock d today pid =
     max (case avg (daily_sales d today pid) of None \<Rightarrow> 5 | Some a \<Rightarrow> a * 3) 5"

text \<open>The \<^verbatim>\<open>CASE\<close> of lines 507--512 (and of the \<^verbatim>\<open>ORDER BY\<close>).\<close>

definition urgency_level :: "int \<Rightarrow> rat \<Rightarrow> rat \<Rightarrow> urgency" where
  "urgency_level current_stock a s =
     (if current_stock \<le> 0 then CRITICAL
      else if of_int current_stock \<le> (a * 7 + s) * 0.5 then HIGH
      else if of_int current_stock \<le> a * 7 + s then MEDIUM
      else LOW)"

fun urgency_rank :: "urgency \<Rightarrow> nat" where
  "urgency_rank CRITICAL = 1"
| "urgency_rank HIGH = 2"
| "urgency_rank MEDIUM = 3"
| "urgency_rank LOW = 4"

text \<open>The final \<^verbatim>\<open>SELECT\<close> (lines 498--512) for one group.\<close>

definition reorder_row_of :: "db \<Rightarrow> int \<Rightarrow> uuid \<times> string \<times> int \<Rightarrow> reorder_row" where
  "reorder_row_of d today g =
     (case g of (pid, name, current_stock) \<Rightarrow>
        (let a = avg_daily_sales d today pid; s = safety_stock d today pid
         in \<lparr>rr_product_id = pid, rr_product_name = name, rr_current_stock = current_stock,
             rr_avg_daily_sales = round2 a, rr_lead_time_days = 7,
             rr_safety_stock = to_integer s,
             rr_reorder_point = to_integer (a * 7 + s),
             rr_suggested_order_quantity = max (to_integer (a * 30)) 10,
             rr_urgency_level = urgency_level current_stock a s\<rparr>))"

text \<open>
  The whole query: one row for each group of the active products that track their
  inventory, by urgency and then by falling average (the average before it is rounded
  for the output).  Rows that tie keep the order of the table.
\<close>

definition calculate_reorder_points :: "db \<Rightarrow> int \<Rightarrow> reorder_row list" where
  "calculate_reorder_points d today =
     (let groups = remdups (map (\<lambda>p. (p_id p, p_name p, p_inventory_quantity p))
                                (filter (\<lambda>p. p_is_active p \<and> p_track_inventory p) (products d)))
      in map (reorder_row_of d today)
             (sort_key (\<lambda>g. urgency_rank (rr_urgency_level (reorder_row_of d today g)))
                (sort_key (\<lambda>g. - avg_daily_sales d today (fst g)) groups)))"

text \<open>
  The "mean units sold per day over trailing 30 days (days with no sales count as
  zero)" of the spec: the units of the window divided by its thirty days.
\<close>

definition mean_units_per_day_30 :: "db \<Rightarrow> int \<Rightarrow> uuid \<Rightarrow> rat" where
  "mean_units_per_day_30 d today pid = of_int (sum_list (map snd (paid_sales d today pid))) / 30"

section \<open>get\_product\_recommendations (stored-procedures.sql, lines 204--355)\<close>

subsection \<open>The names of the query\<close>

text \<open>
  PL/pgSQL prepares an SQL statement when it first runs it, and the column references of
  the statement are resolved then.  The parameters of a function and the columns of its
  \<^verbatim>\<open>RETURNS TABLE\<close> are variables of the function.  An unqualified name that is a column of
  a table in scope and also a variable of the function is refused (the default
  \<^verbatim>\<open>plpgsql.variable_conflict = error\<close>): \<^verbatim>\<open>column reference "product_id" is ambiguous\<close>.
  A name qualified by a table alias cannot be taken for a variable of these functions.
\<close>

datatype name_binding = Column | Variable

definition resolve_name :: "string list \<Rightarrow> string list \<Rightarrow> string \<Rightarrow> pg_error + name_binding" where
  "resolve_name variables columns name =
     (if name \<in> set columns
      then (if name \<in> set variables then Inl ambiguous_column else Inr Column)
      else if name \<in> set variables then Inr Variable
      else Inl undefined_column)"

fun resolve_names ::
  "string list \<Rightarrow> (string list \<times> string) list \<Rightarrow> pg_error + name_binding list" where
  "resolve_names variables [] = Inr []"
| "resolve_names variables ((columns, name) # references) =
     (case resolve_name variables columns name of
        Inl e \<Rightarrow> Inl e
      | Inr b \<Rightarrow>
          (case resolve_names variables references of
             Inl e \<Rightarrow> Inl e
           | Inr bs \<Rightarrow> Inr (b # bs)))"

text \<open>The variables of the function: its parameters (lines 206--208) and lines 211--216.\<close>

definition recommendation_variables :: "string list" where
  "recommendation_variables =
     [''p_user_id'', ''p_product_id'', ''p_limit'',
      ''product_id'', ''product_name'', ''price'', ''avg_rating'',
      ''recommendation_score'', ''recommendation_reason'']"

text \<open>The columns of the tables (schema.sql) and of the subqueries and CTEs of the query.\<close>

definition products_columns :: "string list" where
  "products_columns =
     [''id'', ''sku'', ''name'', ''slug'', ''description'', ''short_description'',
      ''category_id'', ''brand_id'', ''price'', ''compare_price'', ''cost_price'', ''weight'',
      ''dimensions'', ''is_active'', ''is_featured'', ''is_digital'', ''requires_shipping'',
      ''track_inventory'', ''inventory_quantity'', ''low_stock_threshold'', ''tags'',
      ''images'', ''attributes'', ''seo_title'', ''seo_description'', ''created_at'',
      ''updated_at'', ''published_at'']"

definition orders_columns :: "string list" where
  "orders_columns =
     [''id'', ''order_number'', ''user_id'', ''status'', ''payment_status'',
      ''fulfillment_status'', ''subtotal'', ''tax_amount'', ''shipping_amount'',
      ''discount_amount'', ''total_amount'', ''shipping_address'', ''billing_address'',
      ''shipping_method'', ''tracking_number'', ''carrier'', ''created_at'', ''updated_at'',
      ''shipped_at'', ''delivered_at'', ''notes'', ''admin_notes'']"

definition order_items_columns :: "string list" where
  "order_items_columns =
     [''id'', ''order_id'', ''product_id'', ''variant_id'', ''quantity'', ''unit_price'',
      ''total_price'', ''product_name'', ''product_sku'', ''variant_title'', ''created_at'']"

definition reviews_columns :: "string list" where
  "reviews_columns =
     [''id'', ''product_id'', ''user_id'', ''rating'', ''title'', ''content'',
      ''is_verified_purchase'', ''is_approved'', ''helpful_count'', ''created_at'',
      ''updated_at'']"

definition rating_columns :: "string list" where
  "rating_columns = [''product_id'', ''avg_rating'']"

definition user_preferences_columns :: "string list" where
  "user_preferences_columns = [''category_id'', ''brand_id'', ''purchase_count'']"

definition sales_columns :: "string list" where
  "sales_columns = [''product_id'', ''order_count'']"

definition all_recommendations_columns :: "string list" where
  "all_recommendations_columns =
     [''id'', ''name'', ''price'', ''avg_rating'', ''base_score'', ''reason'']"

definition scored_recommendations_columns :: "string list" where
  "scored_recommendations_columns =
     [''id'', ''name'', ''price'', ''avg_rating'', ''final_score'', ''combined_reason'']"

text \<open>
  The unqualified names of the query, in the order of its text, each with the columns
  that are in scope where it stands.  The subquery on \<^verbatim>\<open>reviews\<close> stands four times in the
  query (lines 243--245, 262--264, 288--290 and 307--309).
\<close>

definition rating_references :: "(string list \<times> string) list" where
  "rating_references =
     map (Pair reviews_columns) [''product_id'', ''rating'', ''is_approved'', ''product_id'']"

definition recommendation_references :: "(string list \<times> string) list" where
  "recommendation_references =
     [(orders_columns @ order_items_columns @ products_columns, ''p_user_id'')]
     @ rating_references
     @ map (Pair (products_columns @ products_columns @ rating_columns))
           [''category_id'', ''id'', ''p_product_id'']
     @ [(products_columns @ rating_columns, ''p_product_id'')]
     @ rating_references
     @ map (Pair (order_items_columns @ order_items_columns @ products_columns @ rating_columns))
           [''p_product_id'', ''p_product_id'']
     @ rating_references
     @ map (Pair (products_columns @ user_preferences_columns @ rating_columns))
           [''p_product_id'', ''p_user_id'']
     @ rating_references
     @ [(products_columns @ rating_columns @ sales_columns, ''p_product_id'')]
     @ map (Pair all_recommendations_columns)
           [''id'', ''name'', ''price'', ''avg_rating'', ''base_score'', ''avg_rating'', ''reason'',
            ''id'', ''name'', ''price'', ''avg_rating'']
     @ map (Pair scored_recommendations_columns)
           [''id'', ''name'', ''price'', ''avg_rating'', ''final_score'', ''combined_reason'',
            ''final_score'']
     @ [([], ''p_limit'')]"

subsection \<open>The query\<close>

datatype reason =
    Based_on_your_preferences
  | Frequently_bought_together
  | Similar_product
  | Trending_product

fun reason_text :: "reason \<Rightarrow> string" where
  "reason_text Based_on_your_preferences = ''Based on your preferences''"
| "reason_text Frequently_bought_together = ''Frequently bought together''"
| "reason_text Similar_product = ''Similar product''"
| "reason_text Trending_product = ''Trending product''"

text \<open>The place of a label among the four in the order of their texts.\<close>

fun reason_rank :: "reason \<Rightarrow> nat" where
  "reason_rank Based_on_your_preferences = 0"
| "reason_rank Frequently_bought_together = 1"
| "reason_rank Similar_product = 2"
| "reason_rank Trending_product = 3"

text \<open>A row of the four source CTEs; \<open>None\<close> is a NULL \<^verbatim>\<open>base_score\<close>.\<close>

record candidate =
  ca_id :: uuid
  ca_name :: string
  ca_price :: rat
  ca_avg_rating :: rat
  ca_base_score :: "rat option"
  ca_reason :: reason

text \<open>
  \<^verbatim>\<open>COALESCE(r.avg_rating, 0)\<close>, with \<^verbatim>\<open>r\<close> the average rating of the approved reviews of
  each product.
\<close>

definition product_rating :: "db \<Rightarrow> uuid \<Rightarrow> rat" where
  "product_rating d pid =
     (case avg [rv_rating r. r \<leftarrow> reviews d, rv_product_id r = pid \<and> rv_is_approved r] of
        None \<Rightarrow> 0 | Some a \<Rightarrow> a)"

definition candidate_of :: "db \<Rightarrow> product \<Rightarrow> rat option \<Rightarrow> reason \<Rightarrow> candidate" where
  "candidate_of d p base_score why =
     \<lparr>ca_id = p_id p, ca_name = p_name p, ca_price = p_price p,
      ca_avg_rating = product_rating d (p_id p), ca_base_score = base_score, ca_reason = why\<rparr>"

text \<open>
  \<^verbatim>\<open>user_preferences\<close> (lines 220--231): the rows of the paid orders of the user, joined
  with their items and products, counted for each (category, brand).
\<close>

definition user_preferences :: "db \<Rightarrow> uuid option \<Rightarrow> (uuid \<times> uuid option \<times> nat) list" where
  "user_preferences d p_user_id =
     (case p_user_id of
        None \<Rightarrow> []
      | Some u \<Rightarrow>
          (let rows = [(p_category_id p, p_brand_id p).
                         od \<leftarrow> orders d, oi \<leftarrow> order_items d, p \<leftarrow> products d,
                         o_id od = oi_order_id oi \<and> oi_product_id oi = p_id p
                         \<and> o_user_id od = u \<and> o_payment_status od = paid]
           in map (\<lambda>g. (fst g, snd g, count_list rows g)) (remdups rows)))"

text \<open>\<^verbatim>\<open>similar_products\<close> (lines 232--250).\<close>

definition similar_products :: "db \<Rightarrow> uuid option \<Rightarrow> candidate list" where
  "similar_products d p_product_id =
     (case p_product_id of
        None \<Rightarrow> []
      | Some x \<Rightarrow>
          (case find (\<lambda>p. p_id p = x) (products d) of
             None \<Rightarrow> []
           | Some viewed \<Rightarrow>
               [candidate_of d p (Some 3.0) Similar_product.
                  p \<leftarrow> products d,
                  p_category_id p = p_category_id viewed \<and> p_id p \<noteq> x \<and> p_is_active p]))"

text \<open>
  \<^verbatim>\<open>frequently_bought_together\<close> (lines 251--275).  The rows that are grouped and
  counted are rows of \<^verbatim>\<open>products\<close>; the orders only decide, through \<^verbatim>\<open>IN\<close>, which products
  take part.
\<close>

definition frequently_bought_together :: "db \<Rightarrow> uuid option \<Rightarrow> candidate list" where
  "frequently_bought_together d p_product_id =
     (case p_product_id of
        None \<Rightarrow> []
      | Some x \<Rightarrow>
          (let bought_with = [oi_product_id oi2.
                                oi1 \<leftarrow> order_items d, oi2 \<leftarrow> order_items d,
                                oi_order_id oi1 = oi_order_id oi2
                                \<and> oi_product_id oi1 = x \<and> oi_product_id oi2 \<noteq> x];
               rows = [p. p \<leftarrow> products d, p_id p \<in> set bought_with \<and> p_is_active p]
           in map (\<lambda>p. candidate_of d p
                          (Some (4.0 + of_nat (length (filter (\<lambda>q. (p_id q, p_name q, p_price q)
                                                            = (p_id p, p_name p, p_price p)) rows)) * 0.5))
                          Frequently_bought_together)
                  (map (\<lambda>g. the (find (\<lambda>p. (p_id p, p_name p, p_price p) = g) rows))
                       (remdups (map (\<lambda>p. (p_id p, p_name p, p_price p)) rows)))))"

text \<open>The id that lines 293 and 322 exclude.\<close>

definition excluded_id :: "uuid option \<Rightarrow> uuid" where
  "excluded_id p_product_id =
     (case p_product_id of None \<Rightarrow> ''00000000-0000-0000-0000-000000000000'' | Some x \<Rightarrow> x)"

text \<open>
  \<^verbatim>\<open>user_based_recommendations\<close> (lines 276--295): a left join, with one row for each
  preference row that has the category or the brand of the product, and one row with
  NULLs when there is none.
\<close>

definition user_based_recommendations :: "db \<Rightarrow> uuid option \<Rightarrow> uuid option \<Rightarrow> candidate list" where
  "user_based_recommendations d p_user_id p_product_id =
     (case p_user_id of
        None \<Rightarrow> []
      | Some u \<Rightarrow>
          concat (map (\<lambda>p.
              (let ups = filter (\<lambda>up. p_category_id p = fst up
                                      \<or> (p_brand_id p \<noteq> None \<and> p_brand_id p = fst (snd up)))
                                (user_preferences d p_user_id)
               in if ups = [] then [candidate_of d p (Some 2.0) Based_on_your_preferences]
                  else map (\<lambda>up. candidate_of d p (Some (2.0 + of_nat (snd (snd up)) * 0.3))
                                    Based_on_your_preferences) ups))
            [p. p \<leftarrow> products d, p_is_active p \<and> p_id p \<noteq> excluded_id p_product_id]))"

text \<open>
  \<^verbatim>\<open>trending_products\<close> (lines 296--323): \<^verbatim>\<open>sales\<close> has a row for a product only when a
  paid order of the last thirty days holds it, and the score of a product without such
  a row is NULL.
\<close>

definition recent_order_ids :: "db \<Rightarrow> int \<Rightarrow> uuid \<Rightarrow> uuid list" where
  "recent_order_ids d today pid =
     remdups [oi_order_id oi. oi \<leftarrow> order_items d, od \<leftarrow> orders d,
                oi_order_id oi = o_id od \<and> oi_product_id oi = pid
                \<and> o_created_at od \<ge> (today - 30) * 86400 \<and> o_payment_status od = paid]"

definition trending_products :: "db \<Rightarrow> uuid option \<Rightarrow> int \<Rightarrow> candidate list" where
  "trending_products d p_product_id today =
     [candidate_of d p
        (if recent_order_ids d today (p_id p) = [] then None
         else Some (1.0 + of_nat (length (recent_order_ids d today (p_id p))) * 0.1))
        Trending_product.
      p \<leftarrow> products d, p_is_active p \<and> p_id p \<noteq> excluded_id p_product_id]"

text \<open>\<^verbatim>\<open>SUM\<close> skips NULLs and is NULL when nothing is left.\<close>

definition sum_scores :: "rat option list \<Rightarrow> rat option" where
  "sum_scores xs =
     (let ys = [y. Some y \<leftarrow> xs] in if ys = [] then None else Some (sum_list ys))"

fun join_texts :: "string list \<Rightarrow> string" where
  "join_texts [] = []"
| "join_texts [x] = x"
| "join_texts (x # y # ys) = x @ '', '' @ join_texts (y # ys)"

record recommendation =
  rec_product_id :: uuid
  rec_product_name :: string
  rec_price :: rat
  rec_avg_rating :: rat
  rec_score :: "rat option"
  rec_reason :: string

text \<open>
  \<^verbatim>\<open>scored_recommendations\<close> (lines 333--343) with its \<^verbatim>\<open>final_score\<close> before rounding,
  for the rows of \<^verbatim>\<open>all_recommendations\<close>.
\<close>

definition scored_recommendations :: "candidate list \<Rightarrow> (candidate \<times> rat option \<times> string) list" where
  "scored_recommendations rows =
     map (\<lambda>g.
            (let grp = filter (\<lambda>c. (ca_id c, ca_name c, ca_price c, ca_avg_rating c) = g) rows
             in (hd grp,
                 map_option (\<lambda>s. s + ca_avg_rating (hd grp) * 0.5) (sum_scores (map ca_base_score grp)),
                 join_texts (map reason_text (sort_key reason_rank (remdups (map ca_reason grp)))))))
         (remdups (map (\<lambda>c. (ca_id c, ca_name c, ca_price c, ca_avg_rating c)) rows))"

text \<open>
  The query when it runs: \<^verbatim>\<open>ORDER BY final_score DESC\<close> puts the NULL scores first, and a
  negative \<^verbatim>\<open>LIMIT\<close> is an error.  Rows that tie keep the order of the grouping.
\<close>

definition recommendation_query ::
  "db \<Rightarrow> uuid option \<Rightarrow> uuid option \<Rightarrow> int \<Rightarrow> int \<Rightarrow> pg_error + recommendation list" where
  "recommendation_query d p_user_id p_product_id p_limit today =
     (let all_recommendations =
            similar_products d p_product_id
            @ frequently_bought_together d p_product_id
            @ user_based_recommendations d p_user_id p_product_id
            @ trending_products d p_product_id today;
          scored = scored_recommendations all_recommendations;
          ordered = filter (\<lambda>r. fst (snd r) = None) scored
                    @ sort_key (\<lambda>r. - the (fst (snd r))) (filter (\<lambda>r. fst (snd r) \<noteq> None) scored)
      in if p_limit < 0 then Inl invalid_row_count_in_limit_clause
         else Inr (map (\<lambda>r. (case r of (c, final_score, combined_reason) \<Rightarrow>
                              \<lparr>rec_product_id = ca_id c, rec_product_name = ca_name c,
                               rec_price = ca_price c, rec_avg_rating = round2 (ca_avg_rating c),
                               rec_score = map_option round2 final_score,
                               rec_reason = combined_reason\<rparr>))
                       (take (nat p_limit) ordered)))"

subsection \<open>The function\<close>

text \<open>
  The body is the one statement \<^verbatim>\<open>RETURN QUERY\<close> (lines 219--353): its names are resolved,
  and then the query runs.
\<close>

definition get_product_recommendations ::
  "db \<Rightarrow> uuid option \<Rightarrow> uuid option \<Rightarrow> int \<Rightarrow> int \<Rightarrow> pg_error + recommendation list" where
  "get_product_recommendations d p_user_id p_product_id p_limit today =
     (case resolve_names recommendation_variables recommendation_references of
        Inl e \<Rightarrow> Inl e
      | Inr bindings \<Rightarrow> recommendation_query d p_user_id p_product_id p_limit today)"

section \<open>The product model of the MongoDB layer\<close>

text \<open>
  The \<^verbatim>\<open>inventory\<close> subdocument of a product.  The schema puts \<^verbatim>\<open>min: 0\<close> on its three
  numbers.  \<^verbatim>\<open>save()\<close> validates the document as it stands and then runs the
  \<^verbatim>\<open>pre('save')\<close> hook of the schema, which computes \<^verbatim>\<open>available\<close>: the validation is the
  first of the save hooks.
\<close>

record inventory =
  quantity :: int
  reserved :: int
  available :: int

datatype js_error =
    ValidationError | Insufficient_inventory | Order_not_found | Cannot_cancel | TypeError

definition validate_inventory :: "inventory \<Rightarrow> bool" where
  "validate_inventory doc \<longleftrightarrow> 0 \<le> quantity doc \<and> 0 \<le> reserved doc \<and> 0 \<le> available doc"

definition pre_save :: "inventory \<Rightarrow> inventory" where
  "pre_save doc = doc\<lparr>available := quantity doc - reserved doc\<rparr>"

definition save :: "inventory \<Rightarrow> js_error + inventory" where
  "save doc = (if validate_inventory doc then Inr (pre_save doc) else Inl ValidationError)"

definition updateInventory :: "inventory \<Rightarrow> int \<Rightarrow> js_error + inventory" where
  "updateInventory doc q = save (doc\<lparr>quantity := q\<rparr>)"

definition reserveInventory :: "inventory \<Rightarrow> int \<Rightarrow> js_error + inventory" where
  "reserveInventory doc q =
     (if available doc \<ge> q then save (doc\<lparr>reserved := reserved doc + q\<rparr>)
      else Inl Insufficient_inventory)"

text \<open>
  \<^verbatim>\<open>cancelOrder\<close> (OrderService.js, lines 255--279) over the stored products: the loop
  saves product after product, and a save that fails leaves the function with the
  earlier saves done.  The order was loaded with its products populated, so the product
  of an item that is not stored is \<^verbatim>\<open>null\<close> and reading its \<^verbatim>\<open>_id\<close> throws.
\<close>

type_synonym product_store = "string \<rightharpoonup> inventory"

fun release_items :: "product_store \<Rightarrow> (string \<times> int) list \<Rightarrow> product_store \<times> js_error option" where
  "release_items st [] = (st, None)"
| "release_items st ((pid, n) # items) =
     (case st pid of
        None \<Rightarrow> (st, Some TypeError)
      | Some doc \<Rightarrow>
          (case save (doc\<lparr>reserved := reserved doc - n\<rparr>) of
             Inl e \<Rightarrow> (st, Some e)
           | Inr doc' \<Rightarrow> release_items (st(pid \<mapsto> doc')) items))"

definition cancelOrder ::
  "product_store \<Rightarrow> (order_state \<times> (string \<times> int) list) option
     \<Rightarrow> product_store \<times> (js_error + order_state)" where
  "cancelOrder st found =
     (case found of
        None \<Rightarrow> (st, Inl Order_not_found)
      | Some (status, items) \<Rightarrow>
          if status = shipped \<or> status = delivered then (st, Inl Cannot_cancel)
          else (case release_items st items of
                  (st', Some e) \<Rightarrow> (st', Inl e)
                | (st', None) \<Rightarrow> (st', Inr cancelled)))"

section \<open>Notions used to state the properties\<close>

text \<open>The quantities that the lines of a request take from a product and from a variant.\<close>

definition product_demand :: "order_line list \<Rightarrow> uuid \<Rightarrow> int" where
  "product_demand its pid =
     sum_list (map ol_quantity (filter (\<lambda>it. ol_product_id it = pid \<and> ol_variant_id it = None) its))"

definition variant_demand :: "order_line list \<Rightarrow> uuid \<Rightarrow> int" where
  "variant_demand its vid =
     sum_list (map ol_quantity (filter (\<lambda>it. ol_variant_id it = Some vid) its))"

text \<open>An order item and a ledger row that belong to a line of the request.\<close>

definition item_matches :: "uuid \<Rightarrow> order_line \<Rightarrow> order_item \<Rightarrow> bool" where
  "item_matches oid it r \<longleftrightarrow>
     oi_order_id r = oid \<and> oi_product_id r = ol_product_id it
     \<and> oi_variant_id r = ol_variant_id it \<and> oi_quantity r = ol_quantity it
     \<and> oi_total_price r = oi_unit_price r * of_int (oi_quantity r)"

definition ledger_matches :: "uuid \<Rightarrow> order_line \<Rightarrow> inventory_transaction \<Rightarrow> bool" where
  "ledger_matches oid it t \<longleftrightarrow>
     it_product_id t = ol_product_id it \<and> it_variant_id t = ol_variant_id it
     \<and> it_type t = sale \<and> it_quantity_change t = - ol_quantity it \<and> it_reference_id t = oid"

text \<open>A product and a variant without their stock, and two databases with the same catalog.\<close>

definition p_static :: "product \<Rightarrow> product" where
  "p_static p = p\<lparr>p_inventory_quantity := 0\<rparr>"

definition pv_static :: "product_variant \<Rightarrow> product_variant" where
  "pv_static v = v\<lparr>pv_inventory_quantity := 0\<rparr>"

definition same_catalog :: "db \<Rightarrow> db \<Rightarrow> bool" where
  "same_catalog d d1 \<longleftrightarrow>
     map p_static (products d1) = map p_static (products d)
     \<and> map pv_static (product_variants d1) = map pv_static (product_variants d)"

text \<open>The primary keys of \<^verbatim>\<open>products\<close> and \<^verbatim>\<open>product_variants\<close>.\<close>

definition primary_keys :: "db \<Rightarrow> bool" where
  "primary_keys d \<longleftrightarrow> distinct (map p_id (products d)) \<and> distinct (map pv_id (product_variants d))"

text \<open>The call returned a row with \<^verbatim>\<open>success = TRUE\<close>.\<close>

definition succeeded :: "outcome \<Rightarrow> bool" where
  "succeeded out = (case out of Raised e \<Rightarrow> False | Returned r \<Rightarrow> res_success r)"

text \<open>
  What a committed order leaves behind: every line passed the validation, and the order,
  one item and one ledger row for each line, the stock of every product and variant, the
  use of the coupon and the emptied cart are all in the new database.
\<close>

definition order_committed ::
  "db \<Rightarrow> db \<Rightarrow> uuid \<Rightarrow> order_line list \<Rightarrow> string option \<Rightarrow> uuid \<Rightarrow> int \<Rightarrow> bool" where
  "order_committed d d' p_user_id p_items p_coupon_code v_order_id now \<longleftrightarrow>
     (\<exists>sub. validate_items d p_items 0 [] = Validated sub [])
     \<and> (\<exists>row. orders d' = orders d @ [row] \<and> o_id row = v_order_id \<and> o_user_id row = p_user_id)
     \<and> (\<exists>rows. order_items d' = order_items d @ rows
                \<and> list_all2 (item_matches v_order_id) p_items rows)
     \<and> (\<exists>txs. inventory_transactions d' = inventory_transactions d @ txs
               \<and> list_all2 (ledger_matches v_order_id) p_items txs)
     \<and> products d' =
         map (\<lambda>p. p\<lparr>p_inventory_quantity := p_inventory_quantity p - product_demand p_items (p_id p)\<rparr>)
             (products d)
     \<and> product_variants d' =
         map (\<lambda>v. v\<lparr>pv_inventory_quantity := pv_inventory_quantity v - variant_demand p_items (pv_id v)\<rparr>)
             (product_variants d)
     \<and> (\<exists>code. p_coupon_code = Some code \<and>
           (case find (coupon_selectable code now) (coupons d) of
              None \<Rightarrow> coupons d' = coupons d \<and> coupon_usages d' = coupon_usages d
            | Some c \<Rightarrow>
                coupons d' = map (\<lambda>k. if c_id k = c_id c
                                       then k\<lparr>c_usage_count := c_usage_count k + 1\<rparr> else k) (coupons d)
                \<and> (\<exists>u. coupon_usages d' = coupon_usages d @ [u] \<and> cu_coupon_id u = c_id c
                        \<and> cu_order_id u = v_order_id \<and> cu_user_id u = p_user_id)))
     \<and> cart_items d' = filter (\<lambda>ci. ci_user_id ci \<noteq> p_user_id) (cart_items d)
     \<and> users d' = users d \<and> reviews d' = reviews d"

text \<open>
  A line whose product (and variant, when it names one) the first loop finds, and the
  text that the loop appends to \<^verbatim>\<open>v_insufficient_stock\<close> for it: nothing when the stock
  suffices.
\<close>

definition line_found :: "db \<Rightarrow> order_line \<Rightarrow> bool" where
  "line_found d it =
     (case find (\<lambda>p. p_id p = ol_product_id it \<and> p_is_active p) (products d) of
        None \<Rightarrow> False
      | Some p \<Rightarrow>
          (case ol_variant_id it of
             None \<Rightarrow> True
           | Some vid \<Rightarrow>
               find (\<lambda>v. pv_id v = vid \<and> pv_product_id v = p_id p \<and> pv_is_active v)
                    (product_variants d) \<noteq> None))"

definition line_shortfall :: "db \<Rightarrow> order_line \<Rightarrow> string" where
  "line_shortfall d it =
     (case find (\<lambda>p. p_id p = ol_product_id it \<and> p_is_active p) (products d) of
        None \<Rightarrow> []
      | Some p \<Rightarrow>
          (case ol_variant_id it of
             None \<Rightarrow> if p_inventory_quantity p < ol_quantity it then p_name p @ '', '' else []
           | Some vid \<Rightarrow>
               (case find (\<lambda>v. pv_id v = vid \<and> pv_product_id v = p_id p \<and> pv_is_active v)
                          (product_variants d) of
                  None \<Rightarrow> []
                | Some v \<Rightarrow>
                    if pv_inventory_quantity v < ol_quantity it
                    then p_name p @ '' ('' @ pv_title v @ ''), '' else [])))"


text \<open>The message of the \<^verbatim>\<open>RETURN\<close> that the first loop takes at a line that is not found.\<close>

definition line_not_found_message :: "db \<Rightarrow> order_line \<Rightarrow> string" where
  "line_not_found_message d it =
     (case find (\<lambda>p. p_id p = ol_product_id it \<and> p_is_active p) (products d) of
        None \<Rightarrow> ''Product not found: '' @ ol_product_id it
      | Some p \<Rightarrow>
          (case ol_variant_id it of
             None \<Rightarrow> []
           | Some vid \<Rightarrow> ''Product variant not found: '' @ vid))"

text \<open>
  The mean that the report uses: the units of the window divided by the number of its
  days that had a paid sale of the product, as the quotient that \<^verbatim>\<open>numeric\<close> division
  gives (rounded to its scale of 16 or more significant digits), and 0 when there is no
  such day.
\<close>

definition mean_units_per_sale_day :: "db \<Rightarrow> int \<Rightarrow> uuid \<Rightarrow> rat" where
  "mean_units_per_sale_day d today pid =
     (if paid_sales d today pid = [] then 0
      else numeric_div (sum_list (map snd (paid_sales d today pid)))
                       (card (fst ` set (paid_sales d today pid))))"

text \<open>
  An amount of two decimals, which a \<^verbatim>\<open>DECIMAL(10,2)\<close> column stores as it is; and a catalog
  whose prices are such amounts, as the prices of the columns \<^verbatim>\<open>products.price\<close> and
  \<^verbatim>\<open>product_variants.price\<close> are.
\<close>

definition two_decimals :: "rat \<Rightarrow> bool" where
  "two_decimals x \<longleftrightarrow> round2 x = x"

definition catalog_two_decimals :: "db \<Rightarrow> bool" where
  "catalog_two_decimals d \<longleftrightarrow>
     list_all (\<lambda>p. two_decimals (p_price p)) (products d)
     \<and> list_all (\<lambda>v. two_decimals (pv_price v)) (product_variants d)"

text \<open>The invariant of an inventory subdocument.\<close>

definition inventory_ok :: "inventory \<Rightarrow> bool" where
  "inventory_ok doc \<longleftrightarrow> available doc = quantity doc - reserved doc \<and> 0 \<le> available doc"

section \<open>Small shops, for the examples\<close>

text \<open>
  Two products, a variant of the first and two coupons; the customer \<open>u1\<close> has two widgets
  in the cart.
\<close>

definition widget :: product where
  "widget = \<lparr>p_id = ''p1'', p_sku = ''W-1'', p_name = ''Widget'', p_category_id = ''c1'',
     p_brand_id = None, p_price = 25, p_is_active = True, p_track_inventory = True,
     p_inventory_quantity = 5, p_low_stock_threshold = 10\<rparr>"

definition gadget :: product where
  "gadget = \<lparr>p_id = ''p2'', p_sku = ''G-1'', p_name = ''Gadget'', p_category_id = ''c2'',
     p_brand_id = None, p_price = 10, p_is_active = True, p_track_inventory = True,
     p_inventory_quantity = 1, p_low_stock_threshold = 10\<rparr>"

definition red_widget :: product_variant where
  "red_widget = \<lparr>pv_id = ''v1'', pv_product_id = ''p1'', pv_title = ''Red'', pv_price = 30,
     pv_inventory_quantity = 2, pv_is_active = True\<rparr>"

definition save30 :: coupon where
  "save30 = \<lparr>c_id = ''k1'', c_code = ''SAVE30'', c_type = fixed_amount, c_value = 30,
     c_minimum_amount = 0, c_usage_limit = Some 100, c_usage_count = 3, c_is_active = True,
     c_starts_at = None, c_expires_at = None\<rparr>"

definition big10 :: coupon where
  "big10 = \<lparr>c_id = ''k2'', c_code = ''BIG10'', c_type = percentage, c_value = 10,
     c_minimum_amount = 50, c_usage_limit = None, c_usage_count = 0, c_is_active = True,
     c_starts_at = None, c_expires_at = None\<rparr>"

definition shop :: db where
  "shop = \<lparr>users = [''u1''], products = [widget, gadget], product_variants = [red_widget],
     coupons = [save30, big10], orders = [], order_items = [], inventory_transactions = [],
     coupon_usages = [],
     cart_items = [\<lparr>ci_user_id = ''u1'', ci_product_id = ''p1'', ci_variant_id = None, ci_quantity = 2\<rparr>],
     reviews = []\<rparr>"

definition line :: "uuid \<Rightarrow> int \<Rightarrow> order_line" where
  "line pid n = \<lparr>ol_product_id = pid, ol_variant_id = None, ol_quantity = n\<rparr>"

text \<open>The shop after the order \<open>o1\<close> of two widgets with the coupon \<open>BIG10\<close>, and the row returned.\<close>

definition shop_after :: db where
  "shop_after = shop\<lparr>
     products := [widget\<lparr>p_inventory_quantity := 3\<rparr>, gadget],
     coupons := [save30, big10\<lparr>c_usage_count := 1\<rparr>],
     orders := [\<lparr>o_id = ''o1'', o_order_number = ''ORD-1'', o_user_id = ''u1'',
                 o_status = pending, o_payment_status = pay_pending,
                 o_subtotal = 50, o_tax_amount = 36 / 10, o_shipping_amount = 10,
                 o_discount_amount = 5, o_total_amount = 586 / 10,
                 o_shipping_address = ''home'', o_billing_address = ''home'',
                 o_created_at = 1000\<rparr>],
     order_items := [\<lparr>oi_order_id = ''o1'', oi_product_id = ''p1'', oi_variant_id = None,
                      oi_quantity = 2, oi_unit_price = 25, oi_total_price = 50,
                      oi_product_name = ''Widget'', oi_product_sku = ''W-1'',
                      oi_variant_title = None\<rparr>],
     inventory_transactions := [\<lparr>it_product_id = ''p1'', it_variant_id = None, it_type = sale,
                                 it_quantity_change = - 2, it_quantity_after = 3,
                                 it_reference_id = ''o1'', it_reference_type = ''order''\<rparr>],
     coupon_usages := [\<lparr>cu_coupon_id = ''k2'', cu_order_id = ''o1'', cu_user_id = ''u1'',
                        cu_discount_amount = 5\<rparr>],
     cart_items := []\<rparr>"

definition shop_result :: order_result where
  "shop_result = \<lparr>res_success = True, res_order_id = Some ''o1'', res_total_amount = 586 / 10,
                   res_message = ''Order processed successfully''\<rparr>"

text \<open>
  The same shop with the widget at 10.05 and a coupon of ten percent without a minimum
  amount.
\<close>

definition tenoff :: coupon where
  "tenoff = \<lparr>c_id = ''k3'', c_code = ''TENOFF'', c_type = percentage, c_value = 10,
     c_minimum_amount = 0, c_usage_limit = None, c_usage_count = 0, c_is_active = True,
     c_starts_at = None, c_expires_at = None\<rparr>"

definition penny_shop :: db where
  "penny_shop = shop\<lparr>products := [widget\<lparr>p_price := 1005 / 100\<rparr>, gadget], coupons := [tenoff]\<rparr>"

text \<open>
  The scenario of the spec: a widget at 100.00 with 5 in stock under a threshold of 10,
  a customer with one paid order of 1200.00, placed within the last seven days of day
  20003, which holds twelve lines of one widget.
\<close>

definition widget100 :: product where
  "widget100 = widget\<lparr>p_price := 100\<rparr>"

definition widget_item :: "int \<Rightarrow> order_item" where
  "widget_item n = \<lparr>oi_order_id = ''o1'', oi_product_id = ''p1'', oi_variant_id = None,
     oi_quantity = n, oi_unit_price = 100, oi_total_price = 100 * of_int n,
     oi_product_name = ''Widget'', oi_product_sku = ''W-1'', oi_variant_title = None\<rparr>"

definition paid_order :: order_row where
  "paid_order = \<lparr>o_id = ''o1'', o_order_number = ''ORD-1'', o_user_id = ''u1'',
     o_status = delivered, o_payment_status = paid,
     o_subtotal = 1200, o_tax_amount = 0, o_shipping_amount = 0,
     o_discount_amount = 0, o_total_amount = 1200,
     o_shipping_address = ''home'', o_billing_address = ''home'',
     o_created_at = 20000 * 86400\<rparr>"

definition scenario :: db where
  "scenario = \<lparr>users = [''u1''], products = [widget100], product_variants = [],
     coupons = [], orders = [paid_order], order_items = replicate 12 (widget_item 1),
     inventory_transactions = [], coupon_usages = [], cart_items = [], reviews = []\<rparr>"

text \<open>
  A shop in which one widget was sold on day 20000 and two on day 20001, both paid, with
  five widgets in stock.
\<close>

definition sold_db :: db where
  "sold_db = \<lparr>users = [''u1''], products = [widget], product_variants = [], coupons = [],
     orders = [paid_order, paid_order\<lparr>o_id := ''o2'', o_order_number := ''ORD-2'',
                                      o_created_at := 20001 * 86400\<rparr>],
     order_items = [widget_item 1, (widget_item 2)\<lparr>oi_order_id := ''o2''\<rparr>],
     inventory_transactions = [], coupon_usages = [], cart_items = [], reviews = []\<rparr>"

section \<open>Rounding\<close>

lemma floor_rat_numeral_div [simp]:
  "\<lfloor>(numeral a :: rat) / numeral b\<rfloor> = numeral a div numeral b"
  using floor_divide_of_int_eq[of "numeral a" "numeral b", where ?'a = rat] by simp

lemma floor_of_int_half: "\<lfloor>(of_int k :: rat) + 1 / 2\<rfloor> = k"
  by (rule floor_unique) simp_all

lemma round2_of_int_div: "round2 (of_int k / 100) = of_int k / 100"
proof (cases "0 \<le> k")
  case True
  then show ?thesis by (simp add: round2_def floor_of_int_half)
next
  case False
  then have "\<not> (0 :: rat) \<le> of_int k / 100" by simp
  moreover have "\<lfloor>- (of_int k / 100) * 100 + 1 / 2 :: rat\<rfloor> = - k"
    using floor_of_int_half[of "- k"] by simp
  ultimately show ?thesis by (simp add: round2_def)
qed

text \<open>The amounts of two decimals are the whole numbers of hundredths.\<close>

lemma two_decimals_iff: "two_decimals x \<longleftrightarrow> (\<exists>k :: int. x = of_int k / 100)"
proof
  assume "two_decimals x"
  then have r: "round2 x = x" by (simp add: two_decimals_def)
  show "\<exists>k :: int. x = of_int k / 100"
  proof (cases "0 \<le> x")
    case True
    with r have "x = of_int \<lfloor>x * 100 + 1 / 2\<rfloor> / 100" by (simp add: round2_def)
    then show ?thesis ..
  next
    case False
    with r have "x = of_int (- \<lfloor>- x * 100 + 1 / 2\<rfloor>) / 100" by (simp add: round2_def)
    then show ?thesis ..
  qed
next
  assume "\<exists>k :: int. x = of_int k / 100"
  then obtain k :: int where "x = of_int k / 100" ..
  then show "two_decimals x" by (simp only: two_decimals_def round2_of_int_div)
qed

lemma two_decimals_zero: "two_decimals 0"
  using two_decimals_iff[of 0] by (auto intro: exI[of _ 0])

lemma two_decimals_add: "two_decimals x \<Longrightarrow> two_decimals y \<Longrightarrow> two_decimals (x + y)"
proof -
  assume "two_decimals x" "two_decimals y"
  then obtain k l :: int where "x = of_int k / 100" "y = of_int l / 100"
    by (auto simp: two_decimals_iff)
  then have "x + y = of_int (k + l) / 100" by (simp add: add_divide_distrib)
  then show ?thesis unfolding two_decimals_iff ..
qed

lemma two_decimals_mult_int: "two_decimals x \<Longrightarrow> two_decimals (x * of_int n)"
proof -
  assume "two_decimals x"
  then obtain k :: int where "x = of_int k / 100" by (auto simp: two_decimals_iff)
  then have "x * of_int n = of_int (k * n) / 100" by simp
  then show ?thesis unfolding two_decimals_iff ..
qed

lemma round2_zero: "round2 0 = 0"
  using round2_of_int_div[of 0] by simp

lemma round2_ten: "round2 10 = 10"
  using round2_of_int_div[of 1000] by simp

text \<open>Rounding to \<open>s\<close> decimals moves a value by at most half a unit of the last decimal.\<close>

lemma round_scale_error: "\<bar>round_scale s x - x\<bar> \<le> 1 / (2 * 10 ^ s)"
proof -
  have key: "\<bar>of_int \<lfloor>y + 1 / 2\<rfloor> - y\<bar> \<le> 1 / 2" for y :: rat
    by linarith
  have scale: "\<bar>of_int \<lfloor>y * 10 ^ s + 1 / 2\<rfloor> / 10 ^ s - y\<bar> \<le> 1 / (2 * 10 ^ s)" for y :: rat
  proof -
    have "of_int \<lfloor>y * 10 ^ s + 1 / 2\<rfloor> / 10 ^ s - y
            = (of_int \<lfloor>y * 10 ^ s + 1 / 2\<rfloor> - y * 10 ^ s) / 10 ^ s"
      by (simp add: diff_divide_distrib)
    then have "\<bar>of_int \<lfloor>y * 10 ^ s + 1 / 2\<rfloor> / 10 ^ s - y\<bar>
            = \<bar>of_int \<lfloor>y * 10 ^ s + 1 / 2\<rfloor> - y * 10 ^ s\<bar> / 10 ^ s"
      by (simp add: abs_divide)
    also have "\<dots> \<le> (1 / 2) / 10 ^ s"
      by (rule divide_right_mono[OF key]) simp
    finally show ?thesis by simp
  qed
  show ?thesis
  proof (cases "0 \<le> x")
    case True
    then show ?thesis using scale[of x] by (simp add: round_scale_def)
  next
    case False
    have "\<bar>- (of_int \<lfloor>- x * 10 ^ s + 1 / 2\<rfloor> / 10 ^ s) - x\<bar>
            = \<bar>of_int \<lfloor>- x * 10 ^ s + 1 / 2\<rfloor> / 10 ^ s - (- x)\<bar>"
      by (simp add: abs_minus_commute)
    with False show ?thesis using scale[of "- x"] by (simp add: round_scale_def)
  qed
qed

lemma round2_round_scale: "round2 x = round_scale 2 x"
  by (simp add: round2_def round_scale_def)

lemma numeric_div_error:
  "0 < n \<Longrightarrow> \<bar>numeric_div a n - of_int a / of_nat n\<bar>
      \<le> 1 / (2 * 10 ^ select_div_scale (nat \<bar>a\<bar>) n)"
  unfolding numeric_div_def by (rule round_scale_error)

text \<open>A dividend below 10000 has a quotient of at least 16 decimals.\<close>

lemma select_div_scale_small:
  "n < 10000 \<Longrightarrow> 16 \<le> select_div_scale n m"
proof -
  assume "n < 10000"
  then have "nbase_weight n = 0" by (subst nbase_weight.simps) simp
  then show ?thesis by (auto simp: select_div_scale_def Let_def min_def)
qed

section \<open>process\_order: what the second loop writes\<close>

lemma insert_order_item_Inr:
  "insert_order_item d row = Inr d' \<Longrightarrow> d' = d\<lparr>order_items := order_items d @ [row]\<rparr>"
  by (auto simp: insert_order_item_def split: if_splits)

lemma update_variant_inventory_Inr:
  "update_variant_inventory d vid n = Inr d' \<Longrightarrow>
     d' = d\<lparr>product_variants := map (\<lambda>v. if pv_id v = vid
                            then v\<lparr>pv_inventory_quantity := pv_inventory_quantity v - n\<rparr> else v)
                     (product_variants d)\<rparr>"
  by (auto simp: update_variant_inventory_def Let_def split: if_splits)

lemma update_product_inventory_Inr:
  "update_product_inventory d pid n = Inr d' \<Longrightarrow>
     d' = d\<lparr>products := map (\<lambda>p. if p_id p = pid
                            then p\<lparr>p_inventory_quantity := p_inventory_quantity p - n\<rparr> else p)
                     (products d)\<rparr>"
  by (auto simp: update_product_inventory_def Let_def split: if_splits)

lemma place_item_frame:
  "place_item d oid it = Inr d' \<Longrightarrow>
     users d' = users d \<and> orders d' = orders d \<and> coupons d' = coupons d
     \<and> coupon_usages d' = coupon_usages d \<and> cart_items d' = cart_items d \<and> reviews d' = reviews d"
  unfolding place_item_def insert_inventory_transaction_def
  by (auto split: option.splits sum.splits
      dest!: insert_order_item_Inr update_variant_inventory_Inr update_product_inventory_Inr)

lemma place_items_frame:
  "place_items d oid its = Inr d' \<Longrightarrow>
     users d' = users d \<and> orders d' = orders d \<and> coupons d' = coupons d
     \<and> coupon_usages d' = coupon_usages d \<and> cart_items d' = cart_items d \<and> reviews d' = reviews d"
proof (induction its arbitrary: d)
  case Nil
  then show ?case by simp
next
  case (Cons it its)
  then obtain d1 where 1: "place_item d oid it = Inr d1" and 2: "place_items d1 oid its = Inr d'"
    by (auto split: sum.splits)
  from Cons.IH[OF 2] place_item_frame[OF 1] show ?case by simp
qed

lemma find_SomeD: "find P xs = Some x \<Longrightarrow> P x \<and> x \<in> set xs"
  by (auto simp: find_Some_iff)

lemma place_item_products:
  "place_item d oid it = Inr d' \<Longrightarrow>
     products d' = map (\<lambda>p. p\<lparr>p_inventory_quantity := p_inventory_quantity p - product_demand [it] (p_id p)\<rparr>) (products d)"
  unfolding place_item_def insert_inventory_transaction_def product_demand_def
  by (auto split: option.splits sum.splits
      dest!: insert_order_item_Inr update_variant_inventory_Inr update_product_inventory_Inr find_SomeD)

lemma place_item_variants:
  "place_item d oid it = Inr d' \<Longrightarrow>
     product_variants d' = map (\<lambda>v. v\<lparr>pv_inventory_quantity := pv_inventory_quantity v - variant_demand [it] (pv_id v)\<rparr>) (product_variants d)"
  unfolding place_item_def insert_inventory_transaction_def variant_demand_def
  by (auto split: option.splits sum.splits
      dest!: insert_order_item_Inr update_variant_inventory_Inr update_product_inventory_Inr find_SomeD)

lemma place_items_products:
  "place_items d oid its = Inr d' \<Longrightarrow>
     products d' = map (\<lambda>p. p\<lparr>p_inventory_quantity := p_inventory_quantity p - product_demand its (p_id p)\<rparr>) (products d)"
proof (induction its arbitrary: d)
  case Nil
  then show ?case by (simp add: product_demand_def)
next
  case (Cons it its)
  then obtain d1 where 1: "place_item d oid it = Inr d1" and 2: "place_items d1 oid its = Inr d'"
    by (auto split: sum.splits)
  have dem: "product_demand (it # its) x = product_demand [it] x + product_demand its x" for x
    by (simp add: product_demand_def)
  show ?case
    unfolding Cons.IH[OF 2] place_item_products[OF 1]
    by (simp add: dem o_def algebra_simps)
qed

lemma place_items_variants:
  "place_items d oid its = Inr d' \<Longrightarrow>
     product_variants d' = map (\<lambda>v. v\<lparr>pv_inventory_quantity := pv_inventory_quantity v - variant_demand its (pv_id v)\<rparr>) (product_variants d)"
proof (induction its arbitrary: d)
  case Nil
  then show ?case by (simp add: variant_demand_def)
next
  case (Cons it its)
  then obtain d1 where 1: "place_item d oid it = Inr d1" and 2: "place_items d1 oid its = Inr d'"
    by (auto split: sum.splits)
  have dem: "variant_demand (it # its) x = variant_demand [it] x + variant_demand its x" for x
    by (simp add: variant_demand_def)
  show ?case
    unfolding Cons.IH[OF 2] place_item_variants[OF 1]
    by (simp add: dem o_def algebra_simps)
qed

lemma place_item_order_items:
  "place_item d oid it = Inr d' \<Longrightarrow>
     \<exists>r. order_items d' = order_items d @ [r]
        \<and> oi_order_id r = oid \<and> oi_product_id r = ol_product_id it
        \<and> oi_variant_id r = ol_variant_id it \<and> oi_quantity r = ol_quantity it
        \<and> oi_total_price r = oi_unit_price r * of_int (oi_quantity r)"
  unfolding place_item_def insert_inventory_transaction_def
  by (auto split: option.splits sum.splits
      dest!: insert_order_item_Inr update_variant_inventory_Inr update_product_inventory_Inr find_SomeD)

lemma place_item_ledger:
  "place_item d oid it = Inr d' \<Longrightarrow>
     \<exists>t. inventory_transactions d' = inventory_transactions d @ [t]
        \<and> it_product_id t = ol_product_id it \<and> it_variant_id t = ol_variant_id it
        \<and> it_type t = sale \<and> it_quantity_change t = - ol_quantity it
        \<and> it_reference_id t = oid"
  unfolding place_item_def insert_inventory_transaction_def
  by (auto split: option.splits sum.splits
      dest!: insert_order_item_Inr update_variant_inventory_Inr update_product_inventory_Inr find_SomeD)

lemma place_items_order_items:
  "place_items d oid its = Inr d' \<Longrightarrow>
     \<exists>rows. order_items d' = order_items d @ rows \<and> list_all2 (item_matches oid) its rows"
proof (induction its arbitrary: d)
  case Nil
  then show ?case by simp
next
  case (Cons it its)
  then obtain d1 where 1: "place_item d oid it = Inr d1" and 2: "place_items d1 oid its = Inr d'"
    by (auto split: sum.splits)
  from place_item_order_items[OF 1] obtain r where
    r: "order_items d1 = order_items d @ [r]" "item_matches oid it r"
    by (auto simp: item_matches_def)
  from Cons.IH[OF 2] obtain rows where
    rows: "order_items d' = order_items d1 @ rows" "list_all2 (item_matches oid) its rows"
    by blast
  have "order_items d' = order_items d @ (r # rows)" using r rows by simp
  moreover have "list_all2 (item_matches oid) (it # its) (r # rows)" using r rows by simp
  ultimately show ?case by blast
qed

lemma place_items_ledger:
  "place_items d oid its = Inr d' \<Longrightarrow>
     \<exists>txs. inventory_transactions d' = inventory_transactions d @ txs
          \<and> list_all2 (ledger_matches oid) its txs"
proof (induction its arbitrary: d)
  case Nil
  then show ?case by simp
next
  case (Cons it its)
  then obtain d1 where 1: "place_item d oid it = Inr d1" and 2: "place_items d1 oid its = Inr d'"
    by (auto split: sum.splits)
  from place_item_ledger[OF 1] obtain t where
    t: "inventory_transactions d1 = inventory_transactions d @ [t]" "ledger_matches oid it t"
    by (auto simp: ledger_matches_def)
  from Cons.IH[OF 2] obtain txs where
    txs: "inventory_transactions d' = inventory_transactions d1 @ txs"
         "list_all2 (ledger_matches oid) its txs"
    by blast
  have "inventory_transactions d' = inventory_transactions d @ (t # txs)" using t txs by simp
  moreover have "list_all2 (ledger_matches oid) (it # its) (t # txs)" using t txs by simp
  ultimately show ?case by blast
qed

lemma find_map_cong:
  "map g ys = map g xs \<Longrightarrow> (\<And>a b. g a = g b \<Longrightarrow> Q a = Q b) \<Longrightarrow>
     map_option g (find Q ys) = map_option g (find Q xs)"
proof (induction xs arbitrary: ys)
  case Nil
  from Nil.prems(1) show ?case by simp
next
  case (Cons x xs)
  from Cons.prems(1) obtain y ys' where ys: "ys = y # ys'" by (cases ys) auto
  with Cons.prems have g: "g y = g x" and m: "map g ys' = map g xs" by auto
  have q: "Q y = Q x" using Cons.prems(2)[OF g] .
  show ?case using Cons.IH[OF m Cons.prems(2)] q g ys by simp
qed

lemma find_distinct_same:
  assumes "distinct (map f xs)" "find P xs = Some x" "find P' xs = Some x'" "f x = f x'"
  shows "x' = x"
proof -
  have "x \<in> set xs" "x' \<in> set xs" using assms(2,3) by (auto simp: find_Some_iff)
  moreover have "inj_on f (set xs)" using assms(1) by (simp add: distinct_map)
  ultimately show ?thesis using assms(4) by (auto dest: inj_onD)
qed

lemma same_catalog_product:
  assumes sc: "same_catalog d d1" and pk: "primary_keys d"
    and f: "find (\<lambda>p. p_id p = x \<and> p_is_active p) (products d) = Some p"
    and f1: "find (\<lambda>p. p_id p = x) (products d1) = Some p1"
  shows "p_static p1 = p_static p"
proof -
  have "map_option p_static (find (\<lambda>p. p_id p = x) (products d1))
        = map_option p_static (find (\<lambda>p. p_id p = x) (products d))"
  proof (rule find_map_cong)
    show "map p_static (products d1) = map p_static (products d)"
      using sc by (simp add: same_catalog_def)
  next
    fix a b :: product assume "p_static a = p_static b"
    then have "p_id (p_static a) = p_id (p_static b)" by simp
    then show "(p_id a = x) = (p_id b = x)" by (simp add: p_static_def)
  qed
  with f1 obtain p0 where p0: "find (\<lambda>p. p_id p = x) (products d) = Some p0"
    and e: "p_static p0 = p_static p1" by (auto simp: map_option_case split: option.splits)
  have "p_id p = x" "p_id p0 = x" using f p0 by (auto dest: find_SomeD)
  then have "p0 = p"
    using find_distinct_same[of p_id "products d" _ p _ p0, OF _ f p0] pk
    by (simp add: primary_keys_def)
  with e show ?thesis by simp
qed

lemma same_catalog_variant:
  assumes sc: "same_catalog d d1" and pk: "primary_keys d"
    and f: "find (\<lambda>v. pv_id v = x \<and> pv_product_id v = y \<and> pv_is_active v) (product_variants d) = Some v"
    and f1: "find (\<lambda>v. pv_id v = x) (product_variants d1) = Some v1"
  shows "pv_static v1 = pv_static v"
proof -
  have "map_option pv_static (find (\<lambda>v. pv_id v = x) (product_variants d1))
        = map_option pv_static (find (\<lambda>v. pv_id v = x) (product_variants d))"
  proof (rule find_map_cong)
    show "map pv_static (product_variants d1) = map pv_static (product_variants d)"
      using sc by (simp add: same_catalog_def)
  next
    fix a b :: product_variant assume "pv_static a = pv_static b"
    then have "pv_id (pv_static a) = pv_id (pv_static b)" by simp
    then show "(pv_id a = x) = (pv_id b = x)" by (simp add: pv_static_def)
  qed
  with f1 obtain v0 where v0: "find (\<lambda>v. pv_id v = x) (product_variants d) = Some v0"
    and e: "pv_static v0 = pv_static v1" by (auto simp: map_option_case split: option.splits)
  have "pv_id v = x" "pv_id v0 = x" using f v0 by (auto dest: find_SomeD)
  then have "v0 = v"
    using find_distinct_same[of pv_id "product_variants d" _ v _ v0, OF _ f v0] pk
    by (simp add: primary_keys_def)
  with e show ?thesis by simp
qed

lemma p_static_price: "p_static a = p_static b \<Longrightarrow> p_price a = p_price b"
proof -
  assume "p_static a = p_static b"
  then have "p_price (p_static a) = p_price (p_static b)" by simp
  then show ?thesis by (simp add: p_static_def)
qed

lemma pv_static_price: "pv_static a = pv_static b \<Longrightarrow> pv_price a = pv_price b"
proof -
  assume "pv_static a = pv_static b"
  then have "pv_price (pv_static a) = pv_price (pv_static b)" by simp
  then show ?thesis by (simp add: pv_static_def)
qed

lemma place_item_same_catalog:
  assumes "place_item d1 oid it = Inr d1'" "same_catalog d d1"
  shows "same_catalog d d1'"
proof -
  have "map p_static (products d1') = map p_static (products d1)"
    unfolding place_item_products[OF assms(1)] by (simp add: o_def p_static_def)
  moreover have "map pv_static (product_variants d1') = map pv_static (product_variants d1)"
    unfolding place_item_variants[OF assms(1)] by (simp add: o_def pv_static_def)
  ultimately show ?thesis using assms(2) by (simp add: same_catalog_def)
qed

lemma place_item_unit_price:
  "place_item d1 oid it = Inr d1' \<Longrightarrow>
     \<exists>r p1. order_items d1' = order_items d1 @ [r] \<and> oi_quantity r = ol_quantity it
       \<and> find (\<lambda>p. p_id p = ol_product_id it) (products d1) = Some p1
       \<and> (case ol_variant_id it of
             None \<Rightarrow> oi_unit_price r = p_price p1
           | Some vid \<Rightarrow> (\<exists>v1. find (\<lambda>v. pv_id v = vid) (product_variants d1) = Some v1
                              \<and> oi_unit_price r = pv_price v1))"
  unfolding place_item_def insert_inventory_transaction_def
  by (auto split: option.splits sum.splits
      dest!: insert_order_item_Inr update_variant_inventory_Inr update_product_inventory_Inr)

lemma validate_place_subtotal:
  assumes "primary_keys d"
  shows "same_catalog d d1 \<Longrightarrow> validate_items d its sub ins = Validated sub' ins' \<Longrightarrow>
     place_items d1 oid its = Inr d2 \<Longrightarrow>
     \<exists>rows. order_items d2 = order_items d1 @ rows
        \<and> sub' = sub + (\<Sum>r\<leftarrow>rows. oi_unit_price r * of_int (oi_quantity r))"
proof (induction its arbitrary: d1 sub ins)
  case Nil
  then show ?case by simp
next
  case (Cons it its)
  from Cons.prems(3) obtain d1' where 1: "place_item d1 oid it = Inr d1'"
    and 2: "place_items d1' oid its = Inr d2"
    by (auto split: sum.splits)
  from place_item_unit_price[OF 1] obtain r p1 where
    r: "order_items d1' = order_items d1 @ [r]" "oi_quantity r = ol_quantity it"
    and p1: "find (\<lambda>p. p_id p = ol_product_id it) (products d1) = Some p1"
    and up: "(case ol_variant_id it of
             None \<Rightarrow> oi_unit_price r = p_price p1
           | Some vid \<Rightarrow> (\<exists>v1. find (\<lambda>v. pv_id v = vid) (product_variants d1) = Some v1
                              \<and> oi_unit_price r = pv_price v1))"
    by blast
  from Cons.prems(2) obtain p where
    p: "find (\<lambda>p. p_id p = ol_product_id it \<and> p_is_active p) (products d) = Some p"
    by (auto split: option.splits)
  have pp: "p_price p1 = p_price p"
    using same_catalog_product[OF Cons.prems(1) assms p p1] by (rule p_static_price)
  have "\<exists>ins1. validate_items d its (sub + oi_unit_price r * of_int (oi_quantity r)) ins1
          = Validated sub' ins'"
  proof (cases "ol_variant_id it")
    case None
    with up pp have "oi_unit_price r = p_price p" by simp
    with Cons.prems(2) p None r(2) show ?thesis by (auto split: if_splits)
  next
    case (Some vid)
    with up obtain v1 where v1: "find (\<lambda>v. pv_id v = vid) (product_variants d1) = Some v1"
      and u: "oi_unit_price r = pv_price v1" by auto
    from Cons.prems(2) p Some obtain v where
      v: "find (\<lambda>v. pv_id v = vid \<and> pv_product_id v = p_id p \<and> pv_is_active v) (product_variants d) = Some v"
      by (auto split: option.splits)
    have "pv_price v1 = pv_price v"
      using same_catalog_variant[OF Cons.prems(1) assms v v1] by (rule pv_static_price)
    with u have "oi_unit_price r = pv_price v" by simp
    with Cons.prems(2) p Some v r(2) show ?thesis by (auto split: if_splits)
  qed
  then obtain ins1 where
    va: "validate_items d its (sub + oi_unit_price r * of_int (oi_quantity r)) ins1 = Validated sub' ins'"
    by blast
  from Cons.IH[OF place_item_same_catalog[OF 1 Cons.prems(1)] va 2] obtain rows where
    rows: "order_items d2 = order_items d1' @ rows"
      "sub' = sub + oi_unit_price r * of_int (oi_quantity r)
                + (\<Sum>r\<leftarrow>rows. oi_unit_price r * of_int (oi_quantity r))"
    by blast
  have "order_items d2 = order_items d1 @ (r # rows)" using r rows by simp
  moreover have "sub' = sub + (\<Sum>r\<leftarrow>r # rows. oi_unit_price r * of_int (oi_quantity r))"
    using rows by simp
  ultimately show ?case by blast
qed

lemma insert_order_Inr:
  "insert_order d row = Inr d1 \<Longrightarrow> d1 = d\<lparr>orders := orders d @ [stored_order row]\<rparr>"
  by (auto simp: insert_order_def split: if_splits)

lemma process_order_failed_unchanged:
  "process_order d uid its ship bill code oid onum now = Inr (d', r) \<Longrightarrow> \<not> res_success r \<Longrightarrow> d' = d"
  unfolding process_order_def
  by (auto simp: order_failed_def Let_def split: validation.splits if_splits prod.splits sum.splits)

lemma process_order_success_steps:
  assumes "process_order d uid its ship bill code oid onum now = Inr (d', r)" "res_success r"
  obtains sub v_coupon disc shp d1 d2 d3 where
    "validate_items d its 0 [] = Validated sub []"
    "apply_coupon (coupons d) code sub now = (v_coupon, disc, shp)"
    "insert_order d
       (order_values oid onum uid sub ((sub - disc) * (8 / 100)) shp disc
          (sub + (sub - disc) * (8 / 100) + shp - disc) ship bill now) = Inr d1"
    "place_items d1 oid its = Inr d2"
    "record_coupon_usage d2 v_coupon oid uid disc = Inr d3"
    "d' = clear_cart d3 uid"
    "r = \<lparr>res_success = True, res_order_id = Some oid,
          res_total_amount = sub + (sub - disc) * (8 / 100) + shp - disc,
          res_message = ''Order processed successfully''\<rparr>"
  using assms unfolding process_order_def
  by (auto simp: order_failed_def Let_def split: validation.splits if_splits prod.splits sum.splits)

lemma record_coupon_usage_Inr:
  "record_coupon_usage d2 v_coupon oid uid disc = Inr d3 \<Longrightarrow>
     (v_coupon = NoRow \<and> d3 = d2)
     \<or> (\<exists>c. v_coupon = Row c
          \<and> d3 = d2\<lparr>coupons := map (\<lambda>k. if c_id k = c_id c
                                             then k\<lparr>c_usage_count := c_usage_count k + 1\<rparr> else k)
                                       (coupons d2),
                       coupon_usages := coupon_usages d2 @
                         [\<lparr>cu_coupon_id = c_id c, cu_order_id = oid,
                           cu_user_id = uid, cu_discount_amount = round2 disc\<rparr>]\<rparr>)"
  by (auto simp: record_coupon_usage_def split: coupon_var.splits if_splits)

lemma apply_coupon_var:
  "apply_coupon cs code sub now = (v_coupon, disc, shp) \<Longrightarrow>
     v_coupon = (case code of None \<Rightarrow> NotAssigned
                 | Some c0 \<Rightarrow> (case find (coupon_selectable c0 now) cs of
                                 None \<Rightarrow> NoRow | Some c \<Rightarrow> Row c))"
  by (auto simp: apply_coupon_def split: option.splits if_splits coupon_type.splits)

section \<open>process\_order: the claims\<close>

text \<open>
  Claim C1 (as amended).  A call of \<^verbatim>\<open>process_order\<close> is all or nothing.  Either it returns
  \<^verbatim>\<open>success = TRUE\<close>, and then every requested line passed the validation and the order
  row, one order item and one ledger row for each line, the decrement of the stock of
  every product and variant by the quantities of its lines, the use of the coupon (its
  \<^verbatim>\<open>usage_count\<close> and its usage row) and the emptied cart are in the database together; or
  the database is exactly as it was before the call: that is the case when the function
  returns \<^verbatim>\<open>success = FALSE\<close> and when it raises an error.
\<close>

theorem process_order_all_or_nothing:
  assumes "call_process_order d uid its ship bill code oid onum now = (d', out)"
  shows "if succeeded out then order_committed d d' uid its code oid now else d' = d"
proof (cases "process_order d uid its ship bill code oid onum now")
  case (Inl e)
  with assms have "out = Raised e" "d' = d" by (simp_all add: call_process_order_def)
  then show ?thesis by (simp add: succeeded_def)
next
  case (Inr dr)
  obtain d0 r where dr: "dr = (d0, r)" by (cases dr)
  with Inr assms have out: "out = Returned r" and d0: "d0 = d'"
    by (simp_all add: call_process_order_def)
  have run: "process_order d uid its ship bill code oid onum now = Inr (d', r)"
    using Inr dr d0 by simp
  show ?thesis
  proof (cases "res_success r")
    case False
    with process_order_failed_unchanged[OF run] out show ?thesis by (simp add: succeeded_def)
  next
    case True
    from process_order_success_steps[OF run True] obtain sub v_coupon disc shp d1 d2 d3 where
      v: "validate_items d its 0 [] = Validated sub []"
      and ac: "apply_coupon (coupons d) code sub now = (v_coupon, disc, shp)"
      and io: "insert_order d
                 (order_values oid onum uid sub ((sub - disc) * (8 / 100)) shp disc
                    (sub + (sub - disc) * (8 / 100) + shp - disc) ship bill now) = Inr d1"
      and pl: "place_items d1 oid its = Inr d2"
      and cu: "record_coupon_usage d2 v_coupon oid uid disc = Inr d3"
      and d': "d' = clear_cart d3 uid"
      by metis
    define row where "row = stored_order (order_values oid onum uid sub ((sub - disc) * (8 / 100))
                    shp disc (sub + (sub - disc) * (8 / 100) + shp - disc) ship bill now)"
    have row: "o_id row = oid" "o_user_id row = uid"
      by (simp_all add: row_def order_values_def stored_order_def)
    have d1: "d1 = d\<lparr>orders := orders d @ [row]\<rparr>"
      using insert_order_Inr[OF io] by (simp add: row_def)
    note fr = place_items_frame[OF pl]
    from place_items_order_items[OF pl] obtain rows where
      rows: "order_items d2 = order_items d1 @ rows" "list_all2 (item_matches oid) its rows" by blast
    from place_items_ledger[OF pl] obtain txs where
      txs: "inventory_transactions d2 = inventory_transactions d1 @ txs"
           "list_all2 (ledger_matches oid) its txs" by blast
    note pr = place_items_products[OF pl] and va = place_items_variants[OF pl]
    have vc: "v_coupon = (case code of None \<Rightarrow> NotAssigned
                 | Some c0 \<Rightarrow> (case find (coupon_selectable c0 now) (coupons d) of
                                 None \<Rightarrow> NoRow | Some c \<Rightarrow> Row c))"
      using apply_coupon_var[OF ac] .
    from record_coupon_usage_Inr[OF cu] have
      coup: "\<exists>c0. code = Some c0 \<and>
           (case find (coupon_selectable c0 now) (coupons d) of
              None \<Rightarrow> coupons d3 = coupons d \<and> coupon_usages d3 = coupon_usages d
            | Some c \<Rightarrow>
                coupons d3 = map (\<lambda>k. if c_id k = c_id c
                                       then k\<lparr>c_usage_count := c_usage_count k + 1\<rparr> else k) (coupons d)
                \<and> (\<exists>u. coupon_usages d3 = coupon_usages d @ [u] \<and> cu_coupon_id u = c_id c
                        \<and> cu_order_id u = oid \<and> cu_user_id u = uid))"
      and rest: "orders d3 = orders d2" "order_items d3 = order_items d2"
        "inventory_transactions d3 = inventory_transactions d2" "products d3 = products d2"
        "product_variants d3 = product_variants d2" "cart_items d3 = cart_items d2"
        "users d3 = users d2" "reviews d3 = reviews d2"
      using vc fr d1 by (auto split: option.splits)
    have cc: "orders (clear_cart d3 uid) = orders d3"
      "order_items (clear_cart d3 uid) = order_items d3"
      "inventory_transactions (clear_cart d3 uid) = inventory_transactions d3"
      "products (clear_cart d3 uid) = products d3"
      "product_variants (clear_cart d3 uid) = product_variants d3"
      "coupons (clear_cart d3 uid) = coupons d3"
      "coupon_usages (clear_cart d3 uid) = coupon_usages d3"
      "users (clear_cart d3 uid) = users d3" "reviews (clear_cart d3 uid) = reviews d3"
      "cart_items (clear_cart d3 uid) = filter (\<lambda>ci. ci_user_id ci \<noteq> uid) (cart_items d3)"
      by (simp_all add: clear_cart_def)
    have 1: "\<exists>sub. validate_items d its 0 [] = Validated sub []" using v by blast
    have 2: "\<exists>row. orders d3 = orders d @ [row] \<and> o_id row = oid \<and> o_user_id row = uid"
      using rest fr d1 row by simp
    have 3: "\<exists>rows. order_items d3 = order_items d @ rows \<and> list_all2 (item_matches oid) its rows"
      using rest rows d1 by simp
    have 4: "\<exists>txs. inventory_transactions d3 = inventory_transactions d @ txs
               \<and> list_all2 (ledger_matches oid) its txs"
      using rest txs d1 by simp
    have 5: "products d3 =
         map (\<lambda>p. p\<lparr>p_inventory_quantity := p_inventory_quantity p - product_demand its (p_id p)\<rparr>)
             (products d)"
      using rest pr d1 by simp
    have 6: "product_variants d3 =
         map (\<lambda>v. v\<lparr>pv_inventory_quantity := pv_inventory_quantity v - variant_demand its (pv_id v)\<rparr>)
             (product_variants d)"
      using rest va d1 by simp
    have 7: "filter (\<lambda>ci. ci_user_id ci \<noteq> uid) (cart_items d3)
             = filter (\<lambda>ci. ci_user_id ci \<noteq> uid) (cart_items d)"
      using rest fr d1 by simp
    have 8: "users d3 = users d" "reviews d3 = reviews d" using rest fr d1 by simp_all
    have "order_committed d d' uid its code oid now"
      unfolding order_committed_def d' cc 7 8
      by (intro conjI 1 2 3 4 5 6 coup refl)
    with out True show ?thesis by (simp add: succeeded_def)
  qed
qed

lemmas order_eval = process_order_def apply_coupon_def order_values_def stored_order_def
  coupon_selectable_def insert_order_def place_item_def insert_order_item_def
  update_product_inventory_def update_variant_inventory_def insert_inventory_transaction_def
  record_coupon_usage_def clear_cart_def order_failed_def rtrim_def round2_def Let_def

lemmas shop_defs = shop_def widget_def gadget_def red_widget_def save30_def big10_def line_def

lemma shop_order:
  "process_order shop ''u1'' [line ''p1'' 2] ''home'' None (Some ''BIG10'') ''o1'' ''ORD-1'' 1000
     = Inr (shop_after, shop_result)"
  by (simp add: order_eval shop_defs shop_after_def shop_result_def)

theorem process_order_all_or_nothing_witness:
  "call_process_order shop ''u1'' [line ''p1'' 2] ''home'' None (Some ''BIG10'') ''o1'' ''ORD-1'' 1000
     = (shop_after, Returned shop_result)
   \<and> order_committed shop shop_after ''u1'' [line ''p1'' 2] (Some ''BIG10'') ''o1'' 1000"
proof -
  have c: "call_process_order shop ''u1'' [line ''p1'' 2] ''home'' None (Some ''BIG10'')
             ''o1'' ''ORD-1'' 1000 = (shop_after, Returned shop_result)"
    by (simp add: call_process_order_def shop_order)
  from process_order_all_or_nothing[OF c] c show ?thesis
    by (simp add: succeeded_def shop_result_def)
qed

text \<open>
  The claim as it was stated leaves no room for an error: an order with two lines of
  three widgets each, when five are in stock, passes the validation line by line, and
  the second decrement breaks \<^verbatim>\<open>CHECK (inventory_quantity >= 0)\<close>.  The call raises, it
  does not return \<^verbatim>\<open>success = FALSE\<close>, and nothing is committed.
\<close>

theorem process_order_raise_counterexample:
  "validate_items shop [line ''p1'' 3, line ''p1'' 3] 0 [] = Validated 150 []
   \<and> call_process_order shop ''u1'' [line ''p1'' 3, line ''p1'' 3] ''home'' None (Some ''BIG10'')
        ''o1'' ''ORD-1'' 1000 = (shop, Raised check_violation)"
  by (simp add: call_process_order_def order_eval shop_defs)

section \<open>process\_order: the amounts of an order\<close>

text \<open>With a catalog of two decimals the subtotal of the first loop has two decimals.\<close>

lemma validate_items_two_decimals:
  "catalog_two_decimals d \<Longrightarrow> two_decimals sub \<Longrightarrow>
     validate_items d its sub ins = Validated sub' ins' \<Longrightarrow> two_decimals sub'"
proof (induction its arbitrary: sub ins)
  case Nil
  then show ?case by simp
next
  case (Cons it its)
  from Cons.prems(3) obtain p where
    p: "find (\<lambda>p. p_id p = ol_product_id it \<and> p_is_active p) (products d) = Some p"
    by (auto split: option.splits)
  then have "p \<in> set (products d)" by (auto simp: find_Some_iff)
  with Cons.prems(1) have tp: "two_decimals (p_price p)"
    by (simp add: catalog_two_decimals_def list_all_iff)
  show ?case
  proof (cases "ol_variant_id it")
    case None
    from two_decimals_add[OF Cons.prems(2) two_decimals_mult_int[OF tp]]
    have "two_decimals (sub + p_price p * of_int (ol_quantity it))" .
    from Cons.IH[OF Cons.prems(1) this] Cons.prems(3) p None show ?thesis by simp
  next
    case (Some vid)
    with Cons.prems(3) p obtain v where
      v: "find (\<lambda>v. pv_id v = vid \<and> pv_product_id v = p_id p \<and> pv_is_active v)
            (product_variants d) = Some v"
      by (auto split: option.splits)
    then have "v \<in> set (product_variants d)" by (auto simp: find_Some_iff)
    with Cons.prems(1) have tv: "two_decimals (pv_price v)"
      by (simp add: catalog_two_decimals_def list_all_iff)
    from two_decimals_add[OF Cons.prems(2) two_decimals_mult_int[OF tv]]
    have "two_decimals (sub + pv_price v * of_int (ol_quantity it))" .
    from Cons.IH[OF Cons.prems(1) this] Cons.prems(3) p Some v show ?thesis by simp
  qed
qed

text \<open>The shipping amount after the coupon block is 10.00 or 0.\<close>

lemma apply_coupon_shipping:
  "apply_coupon cs code sub now = (v_coupon, disc, shp) \<Longrightarrow> shp = 10 \<or> shp = 0"
  by (auto simp: apply_coupon_def split: option.splits if_splits coupon_type.splits)

text \<open>
  Claim C3 (as amended).  For every committed order, in a catalog whose prices have two
  decimals, the subtotal of the order row is the sum of unit price times quantity over
  the order items written for its lines.  With the discount and the shipping amount that
  the coupon block computes for that subtotal, the order row holds the discount rounded
  to two decimals, the shipping amount, the tax (subtotal less discount, times 0.08)
  rounded to two decimals, and the total (subtotal plus tax plus shipping less discount,
  from the tax and the discount before they are rounded) rounded to two decimals.  The
  total of the returned row is that total before it is rounded.
\<close>

theorem committed_order_amounts:
  assumes pk: "primary_keys d"
    and td: "catalog_two_decimals d"
    and run: "process_order d uid its ship bill code oid onum now = Inr (d', r)"
    and ok: "res_success r"
  shows "\<exists>row rows v_coupon disc shp.
           orders d' = orders d @ [row] \<and> o_id row = oid
         \<and> order_items d' = order_items d @ rows \<and> list_all2 (item_matches oid) its rows
         \<and> o_subtotal row = (\<Sum>i\<leftarrow>rows. oi_unit_price i * of_int (oi_quantity i))
         \<and> apply_coupon (coupons d) code (o_subtotal row) now = (v_coupon, disc, shp)
         \<and> o_discount_amount row = round2 disc
         \<and> o_shipping_amount row = shp
         \<and> o_tax_amount row = round2 ((o_subtotal row - disc) * (8 / 100))
         \<and> o_total_amount row
             = round2 (o_subtotal row + (o_subtotal row - disc) * (8 / 100) + shp - disc)
         \<and> res_total_amount r
             = o_subtotal row + (o_subtotal row - disc) * (8 / 100) + shp - disc"
proof -
  from process_order_success_steps[OF run ok] obtain sub v_coupon disc shp d1 d2 d3 where
    v: "validate_items d its 0 [] = Validated sub []"
    and ac: "apply_coupon (coupons d) code sub now = (v_coupon, disc, shp)"
    and io: "insert_order d
               (order_values oid onum uid sub ((sub - disc) * (8 / 100)) shp disc
                  (sub + (sub - disc) * (8 / 100) + shp - disc) ship bill now) = Inr d1"
    and pl: "place_items d1 oid its = Inr d2"
    and cu: "record_coupon_usage d2 v_coupon oid uid disc = Inr d3"
    and d': "d' = clear_cart d3 uid"
    and r: "r = \<lparr>res_success = True, res_order_id = Some oid,
          res_total_amount = sub + (sub - disc) * (8 / 100) + shp - disc,
          res_message = ''Order processed successfully''\<rparr>"
    by metis
  define row where "row = stored_order (order_values oid onum uid sub ((sub - disc) * (8 / 100))
                    shp disc (sub + (sub - disc) * (8 / 100) + shp - disc) ship bill now)"
  have d1: "d1 = d\<lparr>orders := orders d @ [row]\<rparr>"
    using insert_order_Inr[OF io] by (simp add: row_def)
  have sc: "same_catalog d d1" by (simp add: d1 same_catalog_def)
  from validate_place_subtotal[OF pk sc v pl] obtain rows where
    rows: "order_items d2 = order_items d1 @ rows"
      "sub = 0 + (\<Sum>r\<leftarrow>rows. oi_unit_price r * of_int (oi_quantity r))" by blast
  from place_items_order_items[OF pl] obtain rows' where
    rows': "order_items d2 = order_items d1 @ rows'" "list_all2 (item_matches oid) its rows'" by blast
  from rows(1) rows'(1) have same: "rows' = rows" by simp
  note fr = place_items_frame[OF pl]
  from record_coupon_usage_Inr[OF cu] have
    rest: "orders d3 = orders d2" "order_items d3 = order_items d2" by auto
  have "two_decimals sub"
    using validate_items_two_decimals[OF td two_decimals_zero v] .
  then have rs: "round2 sub = sub" by (simp add: two_decimals_def)
  from apply_coupon_shipping[OF ac] have rsh: "round2 shp = shp"
    using round2_ten round2_zero by auto
  have sub: "o_subtotal row = sub" using rs by (simp add: row_def order_values_def stored_order_def)
  have o: "orders d' = orders d @ [row]" using d' rest fr d1 by (simp add: clear_cart_def)
  have i: "order_items d' = order_items d @ rows" using d' rest rows d1 by (simp add: clear_cart_def)
  have m: "list_all2 (item_matches oid) its rows" using rows'(2) same by simp
  have s: "o_subtotal row = (\<Sum>i\<leftarrow>rows. oi_unit_price i * of_int (oi_quantity i))"
    using rows(2) sub by simp
  have a: "apply_coupon (coupons d) code (o_subtotal row) now = (v_coupon, disc, shp)"
    using ac sub by simp
  have id: "o_id row = oid" by (simp add: row_def order_values_def stored_order_def)
  have dc: "o_discount_amount row = round2 disc"
    by (simp add: row_def order_values_def stored_order_def)
  have sh: "o_shipping_amount row = shp"
    using rsh by (simp add: row_def order_values_def stored_order_def)
  have tax: "o_tax_amount row = round2 ((o_subtotal row - disc) * (8 / 100))"
    unfolding sub by (simp add: row_def order_values_def stored_order_def)
  have tot: "o_total_amount row
               = round2 (o_subtotal row + (o_subtotal row - disc) * (8 / 100) + shp - disc)"
    unfolding sub by (simp add: row_def order_values_def stored_order_def)
  have t: "res_total_amount r = o_subtotal row + (o_subtotal row - disc) * (8 / 100) + shp - disc"
    unfolding sub using r by simp
  show ?thesis
    by (rule exI[of _ row], rule exI[of _ rows], rule exI[of _ v_coupon], rule exI[of _ disc],
        rule exI[of _ shp]) (intro conjI o id i m s a dc sh tax tot t)
qed

lemmas penny_defs = penny_shop_def tenoff_def shop_defs

lemma penny_order:
  "\<exists>d' r. process_order penny_shop ''u1'' [line ''p1'' 1] ''home'' None (Some ''TENOFF'')
             ''o1'' ''ORD-1'' 1000 = Inr (d', r) \<and> res_success r"
  by (simp add: order_eval penny_defs)

theorem committed_order_amounts_witness:
  "\<exists>d' r row rows v_coupon disc shp.
       process_order penny_shop ''u1'' [line ''p1'' 1] ''home'' None (Some ''TENOFF'')
         ''o1'' ''ORD-1'' 1000 = Inr (d', r)
     \<and> orders d' = orders penny_shop @ [row] \<and> o_id row = ''o1''
     \<and> order_items d' = order_items penny_shop @ rows
     \<and> list_all2 (item_matches ''o1'') [line ''p1'' 1] rows
     \<and> o_subtotal row = (\<Sum>i\<leftarrow>rows. oi_unit_price i * of_int (oi_quantity i))
     \<and> apply_coupon (coupons penny_shop) (Some ''TENOFF'') (o_subtotal row) 1000
           = (v_coupon, disc, shp)
     \<and> o_discount_amount row = round2 disc
     \<and> o_shipping_amount row = shp
     \<and> o_tax_amount row = round2 ((o_subtotal row - disc) * (8 / 100))
     \<and> o_total_amount row
         = round2 (o_subtotal row + (o_subtotal row - disc) * (8 / 100) + shp - disc)
     \<and> res_total_amount r
         = o_subtotal row + (o_subtotal row - disc) * (8 / 100) + shp - disc"
proof -
  from penny_order obtain d' r where
    run: "process_order penny_shop ''u1'' [line ''p1'' 1] ''home'' None (Some ''TENOFF'')
            ''o1'' ''ORD-1'' 1000 = Inr (d', r)"
    and ok: "res_success r" by blast
  have pk: "primary_keys penny_shop" by (simp add: primary_keys_def penny_defs)
  have td: "catalog_two_decimals penny_shop"
    by (simp add: catalog_two_decimals_def two_decimals_def round2_def penny_defs)
  from committed_order_amounts[OF pk td run ok] run show ?thesis by blast
qed

text \<open>
  The claim as it was stated takes the amounts of the order for exact.  One widget at
  10.05 with ten percent off has the discount 1.005 and the tax 0.7236: the order row
  holds the discount 1.01, the tax 0.72 and the total 19.77.  The tax of the row is not
  0.08 times its subtotal less its discount (that is 0.7232), its total is not the sum of
  its amounts (that is 19.76), and the total that the function returns is 19.7686.
\<close>

theorem stored_amounts_counterexample:
  "\<exists>d' r row. process_order penny_shop ''u1'' [line ''p1'' 1] ''home'' None (Some ''TENOFF'')
                   ''o1'' ''ORD-1'' 1000 = Inr (d', r)
     \<and> res_success r \<and> orders d' = [row]
     \<and> o_subtotal row = 1005 / 100 \<and> o_discount_amount row = 101 / 100
     \<and> o_tax_amount row = 72 / 100 \<and> o_shipping_amount row = 10
     \<and> o_total_amount row = 1977 / 100
     \<and> o_tax_amount row \<noteq> (o_subtotal row - o_discount_amount row) * (8 / 100)
     \<and> o_total_amount row
         \<noteq> o_subtotal row + o_tax_amount row + o_shipping_amount row - o_discount_amount row
     \<and> res_total_amount r = 197686 / 10000
     \<and> res_total_amount r \<noteq> o_total_amount row"
  by (simp add: order_eval penny_defs)

lemma place_item_orders_update:
  "place_item (d\<lparr>orders := X\<rparr>) oid it
     = (case place_item d oid it of Inl e \<Rightarrow> Inl e | Inr d2 \<Rightarrow> Inr (d2\<lparr>orders := X\<rparr>))"
  unfolding place_item_def insert_order_item_def update_variant_inventory_def
    update_product_inventory_def insert_inventory_transaction_def Let_def
  by (auto split: option.splits)

lemma place_items_orders_update:
  "place_items (d\<lparr>orders := X\<rparr>) oid its
     = (case place_items d oid its of Inl e \<Rightarrow> Inl e | Inr d2 \<Rightarrow> Inr (d2\<lparr>orders := X\<rparr>))"
proof (induction its arbitrary: d)
  case Nil
  then show ?case by simp
next
  case (Cons it its)
  show ?case
    by (cases "place_item d oid it") (simp_all add: place_item_orders_update Cons.IH)
qed

lemma process_order_commits:
  "validate_items d its 0 [] = Validated sub [] \<Longrightarrow>
   apply_coupon (coupons d) code sub now = (v_coupon, disc, shp) \<Longrightarrow>
   insert_order d
     (order_values oid onum uid sub ((sub - disc) * (8 / 100)) shp disc
        (sub + (sub - disc) * (8 / 100) + shp - disc) ship bill now) = Inr d1 \<Longrightarrow>
   place_items d1 oid its = Inr d2 \<Longrightarrow>
   record_coupon_usage d2 v_coupon oid uid disc = Inr d3 \<Longrightarrow>
   process_order d uid its ship bill code oid onum now
     = Inr (clear_cart d3 uid,
            \<lparr>res_success = True, res_order_id = Some oid,
             res_total_amount = sub + (sub - disc) * (8 / 100) + shp - disc,
             res_message = ''Order processed successfully''\<rparr>)"
  by (simp add: process_order_def Let_def)

lemma apply_coupon_below_minimum:
  "find (coupon_selectable code now) cs = Some c \<Longrightarrow> sub < c_minimum_amount c \<Longrightarrow>
     apply_coupon cs (Some code) sub now = (Row c, 0, 10)"
  by (simp add: apply_coupon_def)

text \<open>
  Claim C10.  A coupon that passes the lookup (code, active, time window, usage limit)
  but asks for a minimum amount above the subtotal does not stop the order: when the
  lines pass the validation, the order row can be inserted and the items can be written,
  \<^verbatim>\<open>process_order\<close> commits the order with a discount of 0, and it still adds one to the
  \<^verbatim>\<open>usage_count\<close> of that coupon and writes a usage row for the coupon and the order.
\<close>

theorem coupon_below_minimum_is_used:
  assumes v: "validate_items d its 0 [] = Validated sub []"
    and c: "find (coupon_selectable code now) (coupons d) = Some c"
    and m: "sub < c_minimum_amount c"
    and fresh: "oid \<notin> set (map o_id (orders d))" "onum \<notin> set (map o_order_number (orders d))"
    and user: "uid \<in> set (users d)"
    and pl: "place_items d oid its = Inr d2"
    and nu: "(c_id c, oid) \<notin> set (map (\<lambda>u. (cu_coupon_id u, cu_order_id u)) (coupon_usages d))"
  shows "\<exists>d' r row. process_order d uid its ship bill (Some code) oid onum now = Inr (d', r)
      \<and> res_success r
      \<and> orders d' = orders d @ [row] \<and> o_id row = oid \<and> o_discount_amount row = 0
      \<and> coupons d' = map (\<lambda>k. if c_id k = c_id c
                                 then k\<lparr>c_usage_count := c_usage_count k + 1\<rparr> else k) (coupons d)
      \<and> coupon_usages d' = coupon_usages d @
            [\<lparr>cu_coupon_id = c_id c, cu_order_id = oid, cu_user_id = uid, cu_discount_amount = 0\<rparr>]"
proof -
  define vals where "vals = order_values oid onum uid sub ((sub - 0) * (8 / 100)) 10 0
                              (sub + (sub - 0) * (8 / 100) + 10 - 0) ship bill now"
  define row where "row = stored_order vals"
  define d1 where "d1 = d\<lparr>orders := orders d @ [row]\<rparr>"
  define d2' where "d2' = d2\<lparr>orders := orders d @ [row]\<rparr>"
  define d3 where "d3 = d2'\<lparr>coupons := map (\<lambda>k. if c_id k = c_id c
                                             then k\<lparr>c_usage_count := c_usage_count k + 1\<rparr> else k)
                                       (coupons d2'),
                       coupon_usages := coupon_usages d2' @
                         [\<lparr>cu_coupon_id = c_id c, cu_order_id = oid,
                           cu_user_id = uid, cu_discount_amount = 0\<rparr>]\<rparr>"
  define r where "r = \<lparr>res_success = True, res_order_id = Some oid,
                        res_total_amount = sub + (sub - 0) * (8 / 100) + 10 - 0,
                        res_message = ''Order processed successfully''\<rparr>"
  have ac: "apply_coupon (coupons d) (Some code) sub now = (Row c, 0, 10)"
    using apply_coupon_below_minimum[OF c m] .
  have row: "o_id row = oid" "o_discount_amount row = 0"
    by (simp_all add: row_def vals_def order_values_def stored_order_def round2_zero)
  have vals: "o_id vals = oid" "o_order_number vals = onum" "o_user_id vals = uid"
    by (simp_all add: vals_def order_values_def)
  have io: "insert_order d vals = Inr d1"
    using fresh user vals by (simp add: insert_order_def d1_def row_def)
  have pl1: "place_items d1 oid its = Inr d2'"
    by (simp add: d1_def d2'_def place_items_orders_update pl)
  note fr = place_items_frame[OF pl]
  have cu: "record_coupon_usage d2' (Row c) oid uid 0 = Inr d3"
    using nu fr by (simp add: record_coupon_usage_def d3_def d2'_def round2_zero)
  have run: "process_order d uid its ship bill (Some code) oid onum now
               = Inr (clear_cart d3 uid, r)"
    unfolding r_def
    by (rule process_order_commits[OF v ac io[unfolded vals_def] pl1 cu])
  have o: "orders (clear_cart d3 uid) = orders d @ [row]"
    by (simp add: clear_cart_def d3_def d2'_def)
  have k: "coupons (clear_cart d3 uid) = map (\<lambda>k. if c_id k = c_id c
                                 then k\<lparr>c_usage_count := c_usage_count k + 1\<rparr> else k) (coupons d)"
    using fr by (simp add: clear_cart_def d3_def d2'_def)
  have u: "coupon_usages (clear_cart d3 uid) = coupon_usages d @
            [\<lparr>cu_coupon_id = c_id c, cu_order_id = oid, cu_user_id = uid, cu_discount_amount = 0\<rparr>]"
    using fr by (simp add: clear_cart_def d3_def d2'_def)
  have s: "res_success r" by (simp add: r_def)
  show ?thesis
    by (rule exI[of _ "clear_cart d3 uid"], rule exI[of _ r], rule exI[of _ row])
       (intro conjI run s o row k u)
qed

theorem coupon_below_minimum_is_used_witness:
  "\<exists>d' r row. process_order shop ''u1'' [line ''p1'' 1] ''home'' None (Some ''BIG10'')
                   ''o1'' ''ORD-1'' 1000 = Inr (d', r)
      \<and> res_success r
      \<and> orders d' = orders shop @ [row] \<and> o_id row = ''o1'' \<and> o_discount_amount row = 0
      \<and> coupons d' = map (\<lambda>k. if c_id k = c_id big10
                                 then k\<lparr>c_usage_count := c_usage_count k + 1\<rparr> else k) (coupons shop)
      \<and> coupon_usages d' = coupon_usages shop @
            [\<lparr>cu_coupon_id = c_id big10, cu_order_id = ''o1'', cu_user_id = ''u1'',
              cu_discount_amount = 0\<rparr>]"
proof -
  have v: "validate_items shop [line ''p1'' 1] 0 [] = Validated 25 []"
    by (simp add: shop_defs)
  have c: "find (coupon_selectable ''BIG10'' 1000) (coupons shop) = Some big10"
    by (simp add: shop_defs coupon_selectable_def)
  have m: "25 < c_minimum_amount big10" by (simp add: big10_def)
  have f: "''o1'' \<notin> set (map o_id (orders shop))"
    "''ORD-1'' \<notin> set (map o_order_number (orders shop))" "''u1'' \<in> set (users shop)"
    by (simp_all add: shop_def)
  have "\<exists>d2. place_items shop ''o1'' [line ''p1'' 1] = Inr d2"
    by (simp add: order_eval shop_defs)
  then obtain d2 where pl: "place_items shop ''o1'' [line ''p1'' 1] = Inr d2" ..
  have nu: "(c_id big10, ''o1'') \<notin> set (map (\<lambda>u. (cu_coupon_id u, cu_order_id u)) (coupon_usages shop))"
    by (simp add: shop_def)
  from coupon_below_minimum_is_used[OF v c m f pl nu] show ?thesis .
qed





lemma validate_items_found:
  "list_all (line_found d) its \<Longrightarrow>
     \<exists>sub'. validate_items d its sub ins
              = Validated sub' (ins @ concat (map (line_shortfall d) its))"
proof (induction its arbitrary: sub ins)
  case Nil
  then show ?case by simp
next
  case (Cons it its)
  from Cons.prems have f: "line_found d it" and r: "list_all (line_found d) its" by simp_all
  from f obtain p where
    p: "find (\<lambda>p. p_id p = ol_product_id it \<and> p_is_active p) (products d) = Some p"
    by (auto simp: line_found_def split: option.splits)
  show ?case
  proof (cases "ol_variant_id it")
    case None
    have ls: "line_shortfall d it
                = (if p_inventory_quantity p < ol_quantity it then p_name p @ '', '' else [])"
      using p None by (simp add: line_shortfall_def)
    have st: "validate_items d (it # its) sub ins
                = validate_items d its (sub + p_price p * of_int (ol_quantity it))
                    (ins @ line_shortfall d it)"
      using p None by (simp add: ls)
    from Cons.IH[OF r, of "sub + p_price p * of_int (ol_quantity it)" "ins @ line_shortfall d it"]
    show ?thesis unfolding st by simp
  next
    case (Some vid)
    with f p obtain v where
      v: "find (\<lambda>v. pv_id v = vid \<and> pv_product_id v = p_id p \<and> pv_is_active v)
               (product_variants d) = Some v"
      by (auto simp: line_found_def)
    have ls: "line_shortfall d it
                = (if pv_inventory_quantity v < ol_quantity it
                   then p_name p @ '' ('' @ pv_title v @ ''), '' else [])"
      using p Some v by (simp add: line_shortfall_def)
    have st: "validate_items d (it # its) sub ins
                = validate_items d its (sub + pv_price v * of_int (ol_quantity it))
                    (ins @ line_shortfall d it)"
      using p Some v by (simp add: ls)
    from Cons.IH[OF r, of "sub + pv_price v * of_int (ol_quantity it)" "ins @ line_shortfall d it"]
    show ?thesis unfolding st by simp
  qed
qed

lemma validate_items_not_found:
  "list_all (line_found d) pre \<Longrightarrow> \<not> line_found d it \<Longrightarrow>
     validate_items d (pre @ it # post) sub ins = NotFound (line_not_found_message d it)"
proof (induction pre arbitrary: sub ins)
  case Nil
  then show ?case
    by (auto simp: line_found_def line_not_found_message_def split: option.splits)
next
  case (Cons a pre)
  from Cons.prems have f: "line_found d a" and r: "list_all (line_found d) pre" by simp_all
  from f obtain p where
    p: "find (\<lambda>p. p_id p = ol_product_id a \<and> p_is_active p) (products d) = Some p"
    by (auto simp: line_found_def split: option.splits)
  show ?case
  proof (cases "ol_variant_id a")
    case None
    with p Cons.IH[OF r Cons.prems(2)] show ?thesis by simp
  next
    case (Some vid)
    with f p obtain v where
      v: "find (\<lambda>v. pv_id v = vid \<and> pv_product_id v = p_id p \<and> pv_is_active v)
               (product_variants d) = Some v"
      by (auto simp: line_found_def)
    with p Some Cons.IH[OF r Cons.prems(2)] show ?thesis by simp
  qed
qed

lemma first_not_found:
  "\<not> list_all P xs \<Longrightarrow> \<exists>pre x post. xs = pre @ x # post \<and> list_all P pre \<and> \<not> P x"
proof (induction xs)
  case Nil
  then show ?case by simp
next
  case (Cons a xs)
  show ?case
  proof (cases "P a")
    case False
    then have "a # xs = [] @ a # xs \<and> list_all P [] \<and> \<not> P a" by simp
    then show ?thesis by blast
  next
    case True
    with Cons.prems have "\<not> list_all P xs" by simp
    from Cons.IH[OF this] obtain pre x post where
      "xs = pre @ x # post" "list_all P pre" "\<not> P x" by blast
    with True have "a # xs = (a # pre) @ x # post \<and> list_all P (a # pre) \<and> \<not> P x" by simp
    then show ?thesis by blast
  qed
qed

text \<open>
  Claim C2 (as amended).  When every line of the request names a product (and variant)
  that the first loop finds, the validation is batched: the loop runs over all lines and
  collects the text of every line whose stock is short, in the order of the request, and
  when that text is not empty \<^verbatim>\<open>process_order\<close> returns the failure whose message lists
  them all, with the database untouched.  When some line is not found, the function
  returns at the first such line, with the message of that line alone and the database
  untouched.
\<close>

theorem validation_batched_when_found:
  "(list_all (line_found d) its \<longrightarrow>
      (\<exists>sub. validate_items d its 0 [] = Validated sub (concat (map (line_shortfall d) its)))
      \<and> (concat (map (line_shortfall d) its) \<noteq> [] \<longrightarrow>
           process_order d uid its ship bill code oid onum now
             = Inr (d, order_failed (''Insufficient stock for: ''
                                      @ rtrim (concat (map (line_shortfall d) its)) '', ''))))
   \<and> (\<not> list_all (line_found d) its \<longrightarrow>
        (\<exists>pre it post. its = pre @ it # post \<and> list_all (line_found d) pre \<and> \<not> line_found d it
           \<and> process_order d uid its ship bill code oid onum now
               = Inr (d, order_failed (line_not_found_message d it))))"
proof (intro conjI impI)
  assume a: "list_all (line_found d) its"
  from validate_items_found[OF a, of 0 "[]"]
  show "\<exists>sub. validate_items d its 0 [] = Validated sub (concat (map (line_shortfall d) its))"
    by simp
next
  assume a: "list_all (line_found d) its" and n: "concat (map (line_shortfall d) its) \<noteq> []"
  from validate_items_found[OF a, of 0 "[]"] obtain sub where
    "validate_items d its 0 [] = Validated sub (concat (map (line_shortfall d) its))" by auto
  with n show "process_order d uid its ship bill code oid onum now
             = Inr (d, order_failed (''Insufficient stock for: ''
                                      @ rtrim (concat (map (line_shortfall d) its)) '', ''))"
    by (simp add: process_order_def)
next
  assume "\<not> list_all (line_found d) its"
  from first_not_found[OF this] obtain pre it post where
    s: "its = pre @ it # post" "list_all (line_found d) pre" "\<not> line_found d it" by blast
  from validate_items_not_found[OF s(2,3), of post 0 "[]"] s(1)
  have "process_order d uid its ship bill code oid onum now
               = Inr (d, order_failed (line_not_found_message d it))"
    by (simp add: process_order_def)
  with s show "\<exists>pre it post. its = pre @ it # post \<and> list_all (line_found d) pre \<and> \<not> line_found d it
           \<and> process_order d uid its ship bill code oid onum now
               = Inr (d, order_failed (line_not_found_message d it))" by blast
qed

theorem validation_batched_when_found_witness:
  "process_order shop ''u1'' [line ''p2'' 2, line ''p1'' 9, line ''p1'' 1] ''home'' None None
      ''o1'' ''ORD-1'' 1000
     = Inr (shop, order_failed ''Insufficient stock for: Gadget, Widget'')
   \<and> (\<exists>it. \<not> line_found shop it
         \<and> process_order shop ''u1'' [line ''p2'' 2, line ''p9'' 1] ''home'' None None
              ''o1'' ''ORD-1'' 1000
            = Inr (shop, order_failed (line_not_found_message shop it)))"
proof -
  have f: "list_all (line_found shop) [line ''p2'' 2, line ''p1'' 9, line ''p1'' 1]"
    by (simp add: line_found_def shop_defs)
  have s: "concat (map (line_shortfall shop) [line ''p2'' 2, line ''p1'' 9, line ''p1'' 1])
             = ''Gadget, Widget, ''"
    by (simp add: line_shortfall_def shop_defs)
  have t: "rtrim ''Gadget, Widget, '' '', '' = ''Gadget, Widget''" by (simp add: rtrim_def)
  have n: "\<not> list_all (line_found shop) [line ''p2'' 2, line ''p9'' 1]"
    by (simp add: line_found_def shop_defs)
  have ne: "concat (map (line_shortfall shop) [line ''p2'' 2, line ''p1'' 9, line ''p1'' 1]) \<noteq> []"
    unfolding s by simp
  from validation_batched_when_found[of shop "[line ''p2'' 2, line ''p1'' 9, line ''p1'' 1]"
        "''u1''" "''home''" None None "''o1''" "''ORD-1''" 1000] f ne
  have "process_order shop ''u1'' [line ''p2'' 2, line ''p1'' 9, line ''p1'' 1] ''home'' None None
      ''o1'' ''ORD-1'' 1000
     = Inr (shop, order_failed (''Insufficient stock for: ''
          @ rtrim (concat (map (line_shortfall shop) [line ''p2'' 2, line ''p1'' 9, line ''p1'' 1]))
              '', ''))"
    by blast
  then have 1: "process_order shop ''u1'' [line ''p2'' 2, line ''p1'' 9, line ''p1'' 1] ''home'' None None
      ''o1'' ''ORD-1'' 1000
     = Inr (shop, order_failed ''Insufficient stock for: Gadget, Widget'')"
    unfolding s t by simp
  from validation_batched_when_found[of shop "[line ''p2'' 2, line ''p9'' 1]"
        "''u1''" "''home''" None None "''o1''" "''ORD-1''" 1000] n
  have 2: "\<exists>it. \<not> line_found shop it
         \<and> process_order shop ''u1'' [line ''p2'' 2, line ''p9'' 1] ''home'' None None
              ''o1'' ''ORD-1'' 1000
            = Inr (shop, order_failed (line_not_found_message shop it))" by blast
  from 1 2 show ?thesis by simp
qed

text \<open>
  The claim as it was stated fails on a request whose first line is short of stock and
  whose second line names an unknown product: the message names the unknown product and
  does not list the line that is short.
\<close>

theorem first_error_return_counterexample:
  "line_shortfall shop (line ''p2'' 2) = ''Gadget, ''
   \<and> process_order shop ''u1'' [line ''p2'' 2, line ''p9'' 1] ''home'' None None
        ''o1'' ''ORD-1'' 1000
      = Inr (shop, order_failed ''Product not found: p9'')"
  by (simp add: line_shortfall_def order_eval shop_defs)

section \<open>calculate\_dynamic\_price: the claims\<close>

lemmas scenario_defs = scenario_def widget100_def widget_def widget_item_def paid_order_def

text \<open>
  Claim C4 asks that \<^verbatim>\<open>calculate_dynamic_price\<close> returns, for every product, the base
  price times the inventory, demand, loyalty and seasonal factors, rounded at the end:
  109.37 in the scenario of the spec (base price 100, stock 5 under a threshold of 10,
  twelve sales in the week, a customer who spent 1200, December).  The code returns no
  price.  The call of the scenario raises \<^verbatim>\<open>cannot set path in scalar\<close> at line 416, as
  every call does, before line 449 computes a price and line 452 returns a row.
\<close>

theorem dynamic_price_not_returned:
  "calculate_dynamic_price scenario ''p1'' (Some ''u1'') 20003 12 = Inl cannot_set_path_in_scalar"
  by (simp add: calculate_dynamic_price_def inventory_label_def Let_def scenario_defs)

text \<open>
  Claim C9 asks that the factors output holds the label of every factor that fired, the
  inventory label and the demand label together when both apply.  The code does not do
  that.  Line 413 assigns the demand label to \<^verbatim>\<open>v_factors\<close> itself, which drops whatever
  the inventory branch had stored, and makes \<^verbatim>\<open>v_factors\<close> a string scalar; line 416
  then calls \<^verbatim>\<open>jsonb_set\<close> on that scalar, which raises.  Every call ends there: no
  factors are returned at all.
\<close>

theorem calculate_dynamic_price_raises:
  "calculate_dynamic_price d p_product_id p_user_id today month = Inl cannot_set_path_in_scalar"
  by (simp add: calculate_dynamic_price_def inventory_label_def Let_def split: option.splits)

lemma inventory_label_lost:
  "inventory_label widget100 (JObject []) = Inr (JObject [(''inventory'', JString ''Low stock premium'')])
   \<and> sale_count scenario ''p1'' 20003 = 12
   \<and> demand_label 12 = ''High demand premium''
   \<and> jsonb_set (JString ''High demand premium'') ''demand'' (JString ''High demand premium'')
        = Inl cannot_set_path_in_scalar"
  by (simp add: inventory_label_def demand_label_def sale_count_def scenario_defs eval_nat_numeral)

section \<open>calculate\_reorder\_points: the claim\<close>

lemma sum_list_if_distinct:
  "distinct ks \<Longrightarrow> a \<in> set ks \<Longrightarrow>
     sum_list (map (\<lambda>k. (if k = a then c else 0) + f k) ks) = c + sum_list (map f ks)"
  for c :: int
proof (induction ks)
  case Nil
  then show ?case by simp
next
  case (Cons k ks)
  show ?case
  proof (cases "k = a")
    case True
    with Cons.prems have "a \<notin> set ks" by simp
    then have "map (\<lambda>k. (if k = a then c else 0) + f k) ks = map f ks"
      by (intro map_cong) auto
    with True show ?thesis by (simp del: map_eq_conv)
  next
    case False
    with Cons.prems have "distinct ks" "a \<in> set ks" by simp_all
    from Cons.IH[OF this] False show ?thesis by simp
  qed
qed

lemma grouped_sum:
  "sum_list (map (\<lambda>k. sum_list (map snd (filter (\<lambda>r. fst r = k) s))) (remdups (map fst s)))
     = sum_list (map snd s)"
  for s :: "('k \<times> int) list"
proof (induction s)
  case Nil
  then show ?case by simp
next
  case (Cons x s)
  let ?g = "\<lambda>t k. sum_list (map snd (filter (\<lambda>r. fst r = k) t))"
  have step: "?g (x # s) k = (if k = fst x then snd x else 0) + ?g s k" for k by simp
  show ?case
  proof (cases "fst x \<in> set (map fst s)")
    case True
    then have "remdups (map fst (x # s)) = remdups (map fst s)" by simp
    moreover have "sum_list (map (\<lambda>k. (if k = fst x then snd x else 0) + ?g s k) (remdups (map fst s)))
                     = snd x + sum_list (map (?g s) (remdups (map fst s)))"
      using True by (intro sum_list_if_distinct) simp_all
    ultimately show ?thesis using Cons.IH by (simp only: step) simp
  next
    case False
    then have r: "remdups (map fst (x # s)) = fst x # remdups (map fst s)" by simp
    have z: "filter (\<lambda>r. fst r = fst x) s = []"
      using False by (auto simp: filter_empty_conv image_iff)
    have "map (\<lambda>k. (if k = fst x then snd x else 0) + ?g s k) (remdups (map fst s))
            = map (?g s) (remdups (map fst s))"
    proof (intro map_cong refl)
      fix k assume "k \<in> set (remdups (map fst s))"
      with False have "k \<noteq> fst x" by (metis set_remdups)
      then show "(if k = fst x then snd x else 0) + ?g s k = ?g s k" by simp
    qed
    then have m: "sum_list (map (\<lambda>k. (if k = fst x then snd x else 0) + ?g s k)
                              (remdups (map fst s)))
                    = sum_list (map (?g s) (remdups (map fst s)))"
      by (rule arg_cong)
    have "sum_list (map (?g (x # s)) (remdups (map fst (x # s))))
            = ?g (x # s) (fst x) + sum_list (map (?g (x # s)) (remdups (map fst s)))"
      by (subst r) (simp only: list.map sum_list.Cons)
    also have "?g (x # s) (fst x) = snd x" by (simp add: z)
    also have "sum_list (map (?g (x # s)) (remdups (map fst s)))
                 = sum_list (map (\<lambda>k. (if k = fst x then snd x else 0) + ?g s k)
                              (remdups (map fst s)))"
      by (simp only: step)
    also note m
    also note Cons.IH
    finally show ?thesis by simp
  qed
qed

lemma daily_sales_total:
  "sum_list (daily_sales d today pid) = sum_list (map snd (paid_sales d today pid))"
  by (simp add: daily_sales_def Let_def grouped_sum)

lemma daily_sales_days:
  "length (daily_sales d today pid) = card (fst ` set (paid_sales d today pid))"
  by (simp add: daily_sales_def Let_def length_remdups_card_conv)

lemma daily_sales_empty: "daily_sales d today pid = [] \<longleftrightarrow> paid_sales d today pid = []"
  by (simp add: daily_sales_def Let_def)

lemma avg_daily_sales_mean:
  "avg_daily_sales d today pid = mean_units_per_sale_day d today pid"
  by (simp add: avg_daily_sales_def avg_def mean_units_per_sale_day_def daily_sales_empty
      daily_sales_total daily_sales_days)

lemma safety_stock_max:
  "safety_stock d today pid = max (avg_daily_sales d today pid * 3) 5"
  by (simp add: safety_stock_def avg_daily_sales_def split: option.splits)

lemma urgency_level_example: "urgency_level 5 2 6 = HIGH"
  by (simp add: urgency_level_def)

text \<open>
  Claim C6 (as amended).  For every active product that tracks its inventory the report
  has a row.  Its average daily sales are the mean of the daily unit totals over the days
  of the last thirty on which the product had a paid sale (0 when there is none): a day
  without sales is not a day of the mean.  The mean is the quotient of \<^verbatim>\<open>numeric\<close>
  division, the units divided by the number of those days and rounded to the scale of
  the division (16 decimals or more when fewer than 10000 units were sold).  With that
  average the safety stock is max(avg * 3, 5), the reorder point is avg * 7 + safety
  stock and the suggested order quantity is max(avg * 30, 10); the row gives the average
  rounded to two decimals and the three others rounded to the nearest integer.  The
  urgency is CRITICAL for a stock of at most 0, HIGH for a stock of at most half the
  reorder point, MEDIUM for a stock of at most the reorder point, else LOW, in that
  order, against the reorder point before it is rounded.  (With avg 2 and safety stock 6
  a stock of 5 is HIGH.)
\<close>

theorem reorder_report_rows:
  assumes "p \<in> set (products d)" "p_is_active p" "p_track_inventory p"
  shows "reorder_row_of d today (p_id p, p_name p, p_inventory_quantity p)
           \<in> set (calculate_reorder_points d today)
    \<and> reorder_row_of d today (p_id p, p_name p, p_inventory_quantity p) =
        (let a = mean_units_per_sale_day d today (p_id p);
             s = max (a * 3) 5;
             stock = p_inventory_quantity p
         in \<lparr>rr_product_id = p_id p, rr_product_name = p_name p, rr_current_stock = stock,
             rr_avg_daily_sales = round2 a, rr_lead_time_days = 7,
             rr_safety_stock = to_integer s,
             rr_reorder_point = to_integer (a * 7 + s),
             rr_suggested_order_quantity = max (to_integer (a * 30)) 10,
             rr_urgency_level =
               (if stock \<le> 0 then CRITICAL
                else if of_int stock \<le> (a * 7 + s) / 2 then HIGH
                else if of_int stock \<le> a * 7 + s then MEDIUM
                else LOW)\<rparr>)"
proof
  have "(p_id p, p_name p, p_inventory_quantity p)
          \<in> set (remdups (map (\<lambda>p. (p_id p, p_name p, p_inventory_quantity p))
                                (filter (\<lambda>p. p_is_active p \<and> p_track_inventory p) (products d))))"
    using assms by auto
  then show "reorder_row_of d today (p_id p, p_name p, p_inventory_quantity p)
           \<in> set (calculate_reorder_points d today)"
    unfolding calculate_reorder_points_def Let_def by (simp del: set_remdups)
next
  have a: "avg_daily_sales d today (p_id p) = mean_units_per_sale_day d today (p_id p)"
    by (rule avg_daily_sales_mean)
  show "reorder_row_of d today (p_id p, p_name p, p_inventory_quantity p) =
        (let a = mean_units_per_sale_day d today (p_id p);
             s = max (a * 3) 5;
             stock = p_inventory_quantity p
         in \<lparr>rr_product_id = p_id p, rr_product_name = p_name p, rr_current_stock = stock,
             rr_avg_daily_sales = round2 a, rr_lead_time_days = 7,
             rr_safety_stock = to_integer s,
             rr_reorder_point = to_integer (a * 7 + s),
             rr_suggested_order_quantity = max (to_integer (a * 30)) 10,
             rr_urgency_level =
               (if stock \<le> 0 then CRITICAL
                else if of_int stock \<le> (a * 7 + s) / 2 then HIGH
                else if of_int stock \<le> a * 7 + s then MEDIUM
                else LOW)\<rparr>)"
    by (simp add: reorder_row_of_def Let_def safety_stock_max a urgency_level_def)
qed

lemmas reorder_eval = paid_sales_def sold_db_def widget_def widget_item_def paid_order_def

lemma sold_db_sales: "paid_sales sold_db 20003 ''p1'' = [(20000, 1), (20001, 2)]"
  by (simp add: reorder_eval)

lemmas numeric_eval = numeric_div_def select_div_scale_def round_scale_def
  nbase_weight.simps nbase_first_digit.simps Let_def

lemma sold_db_mean: "mean_units_per_sale_day sold_db 20003 ''p1'' = 3 / 2"
  by (simp add: mean_units_per_sale_day_def sold_db_sales numeric_eval)

theorem reorder_report_rows_witness:
  "reorder_row_of sold_db 20003 (''p1'', ''Widget'', 5) \<in> set (calculate_reorder_points sold_db 20003)
   \<and> reorder_row_of sold_db 20003 (''p1'', ''Widget'', 5) =
       \<lparr>rr_product_id = ''p1'', rr_product_name = ''Widget'', rr_current_stock = 5,
        rr_avg_daily_sales = 3 / 2, rr_lead_time_days = 7, rr_safety_stock = 5,
        rr_reorder_point = 16, rr_suggested_order_quantity = 45, rr_urgency_level = HIGH\<rparr>"
proof -
  have w: "widget \<in> set (products sold_db)" "p_is_active widget" "p_track_inventory widget"
    by (simp_all add: sold_db_def widget_def)
  have f: "p_id widget = ''p1''" "p_name widget = ''Widget''" "p_inventory_quantity widget = 5"
    by (simp_all add: widget_def)
  note r = reorder_report_rows[OF w, of 20003, unfolded f sold_db_mean]
  from r have m: "reorder_row_of sold_db 20003 (''p1'', ''Widget'', 5)
                    \<in> set (calculate_reorder_points sold_db 20003)" by (rule conjunct1)
  from r have e: "reorder_row_of sold_db 20003 (''p1'', ''Widget'', 5) =
       \<lparr>rr_product_id = ''p1'', rr_product_name = ''Widget'', rr_current_stock = 5,
        rr_avg_daily_sales = 3 / 2, rr_lead_time_days = 7, rr_safety_stock = 5,
        rr_reorder_point = 16, rr_suggested_order_quantity = 45, rr_urgency_level = HIGH\<rparr>"
    by (simp add: Let_def round2_def to_integer_def)
  from m e show ?thesis by (rule conjI)
qed

text \<open>
  The claim as it was stated fails in a shop that sold one widget on one day and two on
  the next: per day of the thirty the mean is 0.1, and the report has 1.5, the mean over
  the two days with sales.  With the mean of the claim a stock of 5 would be MEDIUM; the
  report says HIGH.  The reorder point of the row is 16, the rounded 15.5.
\<close>

theorem reorder_mean_counterexample:
  "mean_units_per_day_30 sold_db 20003 ''p1'' = 1 / 10
   \<and> avg_daily_sales sold_db 20003 ''p1'' = 3 / 2
   \<and> urgency_level 5 (1 / 10) (max (1 / 10 * 3) 5) = MEDIUM
   \<and> rr_urgency_level (reorder_row_of sold_db 20003 (''p1'', ''Widget'', 5)) = HIGH
   \<and> rr_reorder_point (reorder_row_of sold_db 20003 (''p1'', ''Widget'', 5)) = 16
   \<and> (3 / 2 :: rat) * 7 + max (3 / 2 * 3) 5 = 31 / 2"
  by (simp add: mean_units_per_day_30_def sold_db_sales avg_daily_sales_mean sold_db_mean
      reorder_row_of_def safety_stock_max urgency_level_def to_integer_def Let_def)

text \<open>
  The rounding of the quotient shows at the thresholds.  Eleven units on seven days have
  the mean 1.5714285714285714, and the reorder point 15.9999999999999998: a stock of 16
  is LOW, where the exact mean 11/7 has the reorder point 16 and the urgency MEDIUM.
  Fifteen units on fourteen days have the reorder point 12.4999999999999998, which the
  row gives as 12; with the exact mean it is 12.5 and would be given as 13.
\<close>

lemma rounded_mean_examples:
  "numeric_div 11 7 = 15714285714285714 / 10 ^ 16
   \<and> urgency_level 16 (numeric_div 11 7) (max (numeric_div 11 7 * 3) 5) = LOW
   \<and> urgency_level 16 (11 / 7) (max (11 / 7 * 3) 5) = MEDIUM
   \<and> numeric_div 15 14 = 10714285714285714 / 10 ^ 16
   \<and> to_integer (numeric_div 15 14 * 7 + max (numeric_div 15 14 * 3) 5) = 12
   \<and> to_integer (15 / 14 * 7 + max (15 / 14 * 3) 5) = 13"
  by (simp add: numeric_eval urgency_level_def to_integer_def)

section \<open>get\_product\_recommendations: the claim\<close>

lemmas column_defs = recommendation_variables_def recommendation_references_def
  rating_references_def products_columns_def orders_columns_def order_items_columns_def
  reviews_columns_def rating_columns_def user_preferences_columns_def sales_columns_def
  all_recommendations_columns_def scored_recommendations_columns_def

text \<open>
  The first of the names that the query leaves unqualified and that are also variables
  of the function is the \<^verbatim>\<open>product_id\<close> of line 243.
\<close>

lemma product_id_ambiguous:
  "resolve_name recommendation_variables reviews_columns ''product_id'' = Inl ambiguous_column"
  by (simp add: resolve_name_def column_defs)

lemma recommendation_names:
  "resolve_names recommendation_variables recommendation_references = Inl ambiguous_column"
  by (simp add: resolve_name_def column_defs)

text \<open>
  The names \<^verbatim>\<open>product_id\<close>, \<^verbatim>\<open>price\<close> and \<^verbatim>\<open>avg_rating\<close> are the only ones: every other
  unqualified name of the query resolves, to a column or to a parameter.
\<close>

lemma other_names_resolve:
  "\<exists>bindings.
     resolve_names recommendation_variables
       (filter (\<lambda>r. snd r \<notin> {''product_id'', ''price'', ''avg_rating''}) recommendation_references)
     = Inr bindings"
  by (simp add: resolve_name_def column_defs)

text \<open>
  Claim C7 asks that every call of \<^verbatim>\<open>get_product_recommendations\<close> returns the
  candidates with the sum of their source scores and the rating bonus, by falling score
  and cut to the requested count.  The code returns nothing: every call raises.  The
  columns \<^verbatim>\<open>product_id\<close>, \<^verbatim>\<open>price\<close> and \<^verbatim>\<open>avg_rating\<close> of \<^verbatim>\<open>RETURNS TABLE\<close> are variables of
  the function, and the query uses these names unqualified for columns (lines 243, 262,
  288, 307 and 337--348), so that the statement is refused when it is prepared:
  \<^verbatim>\<open>column reference "product_id" is ambiguous\<close>.
\<close>

theorem recommendations_raise:
  "get_product_recommendations d p_user_id p_product_id p_limit today = Inl ambiguous_column"
  by (simp add: get_product_recommendations_def recommendation_names)

subsection \<open>The scores of the query\<close>

text \<open>
  Two facts about the query that the function would run.  They do not come to bear while
  its names are ambiguous.
\<close>

lemma filter_key_single:
  assumes "distinct (map f xs)" "x \<in> set xs" "\<And>q. k q = k x \<Longrightarrow> f q = f x"
  shows "filter (\<lambda>q. k q = k x) xs = [x]"
  using assms(1,2)
proof (induction xs)
  case Nil
  then show ?case by simp
next
  case (Cons a xs)
  show ?case
  proof (cases "a = x")
    case True
    with Cons.prems have "f x \<notin> f ` set xs" by simp
    then have "\<And>q. q \<in> set xs \<Longrightarrow> k q \<noteq> k x" using assms(3) by (metis imageI)
    then have "filter (\<lambda>q. k q = k x) xs = []" by (simp add: filter_empty_conv)
    with True show ?thesis by simp
  next
    case False
    with Cons.prems have x: "x \<in> set xs" and d: "distinct (map f xs)" by simp_all
    from Cons.prems x have "f a \<noteq> f x"
      by (metis distinct.simps(2) imageI list.simps(9) set_map)
    then have "k a \<noteq> k x" using assms(3) by metis
    with Cons.IH[OF d x] show ?thesis by simp
  qed
qed

lemma concat_if_filter:
  "concat (map (\<lambda>x. if P x then [x] else []) xs) = filter P xs"
  by (induction xs) simp_all

text \<open>
  With \<^verbatim>\<open>products.id\<close> a key, every group of lines 251--275 holds one row, whatever the
  number of orders that hold both products: the score there is always 4.0 + 1 * 0.5.
\<close>

lemma bought_together_score:
  assumes pk: "distinct (map p_id (products d))"
    and c: "c \<in> set (frequently_bought_together d p_product_id)"
  shows "ca_base_score c = Some (9 / 2)"
proof (cases p_product_id)
  case None
  with c show ?thesis by (simp add: frequently_bought_together_def)
next
  case (Some x)
  define bought_with where "bought_with = [oi_product_id oi2.
                                oi1 \<leftarrow> order_items d, oi2 \<leftarrow> order_items d,
                                oi_order_id oi1 = oi_order_id oi2
                                \<and> oi_product_id oi1 = x \<and> oi_product_id oi2 \<noteq> x]"
  define rows where "rows = [p. p \<leftarrow> products d, p_id p \<in> set bought_with \<and> p_is_active p]"
  define key where "key = (\<lambda>p::product. (p_id p, p_name p, p_price p))"
  have rows: "rows = filter (\<lambda>p. p_id p \<in> set bought_with \<and> p_is_active p) (products d)"
    unfolding rows_def by (rule concat_if_filter)
  have dr: "distinct (map p_id rows)" unfolding rows using pk by (simp add: distinct_map_filter)
  define pick where "pick = (\<lambda>g. the (find (\<lambda>p. key p = g) rows))"
  define cand where "cand = (\<lambda>p. candidate_of d p
      (Some (4.0 + of_nat (length (filter (\<lambda>q. key q = key p) rows)) * 0.5))
      Frequently_bought_together)"
  have eq: "frequently_bought_together d (Some x)
              = map cand (map pick (remdups (map key rows)))"
    by (simp add: frequently_bought_together_def Let_def bought_with_def rows_def key_def
        pick_def cand_def)
  from c Some have "c \<in> set (map cand (map pick (remdups (map key rows))))"
    by (simp only: eq)
  then obtain g where g: "g \<in> set (map key rows)" and cc: "c = cand (pick g)"
    by auto
  from g obtain p0 where "p0 \<in> set rows" "key p0 = g" by auto
  then obtain p where p: "find (\<lambda>p. key p = g) rows = Some p"
    by (cases "find (\<lambda>p. key p = g) rows") (auto simp: find_None_iff)
  then have pin: "p \<in> set rows" by (auto simp: find_Some_iff)
  have "filter (\<lambda>q. key q = key p) rows = [p]"
    by (rule filter_key_single[OF dr pin]) (simp add: key_def)
  with cc p show ?thesis by (simp add: candidate_of_def cand_def pick_def)
qed

text \<open>
  The trending score of line 303 is NULL exactly for a product that no paid order of the
  last thirty days holds.
\<close>

lemma trending_score_null:
  "c \<in> set (trending_products d p_product_id today) \<Longrightarrow>
     ca_base_score c = None \<longleftrightarrow> recent_order_ids d today (ca_id c) = []"
  by (auto simp: trending_products_def candidate_of_def split: if_splits)

section \<open>The product model: the claim\<close>

text \<open>
  What holds of the model: a save that succeeds leaves \<^verbatim>\<open>available = quantity - reserved\<close>;
  a reservation that succeeds keeps the invariant and adds the quantity to \<^verbatim>\<open>reserved\<close>,
  and one for more than is available fails before it changes anything.
\<close>

lemma save_recomputes:
  "save doc = Inr doc' \<Longrightarrow> available doc' = quantity doc' - reserved doc'"
  by (auto simp: save_def pre_save_def split: if_splits)

lemma reserveInventory_preserves:
  assumes "inventory_ok doc" "0 \<le> quantity doc" "0 \<le> reserved doc"
    and "reserveInventory doc q = Inr doc'"
  shows "inventory_ok doc' \<and> q \<le> available doc \<and> reserved doc' = reserved doc + q
         \<and> quantity doc' = quantity doc"
  using assms
  by (auto simp: reserveInventory_def save_def pre_save_def validate_inventory_def inventory_ok_def
      split: if_splits)

lemma reserveInventory_insufficient:
  "available doc < q \<Longrightarrow> reserveInventory doc q = Inl Insufficient_inventory"
  by (simp add: reserveInventory_def)

text \<open>
  Claim C8 asks that \<^verbatim>\<open>available = quantity - reserved\<close> and \<^verbatim>\<open>available >= 0\<close> hold at all
  times and that every operation keeps them.  \<^verbatim>\<open>updateInventory\<close> does not: the schema
  asks for \<^verbatim>\<open>available >= 0\<close> (\<^verbatim>\<open>min: 0\<close>), but the validation of a save sees the value
  of \<^verbatim>\<open>available\<close> from before the hook that computes it.  A product with 10 units, 8
  of them reserved, whose quantity is set to 5 is saved with \<^verbatim>\<open>available = -3\<close>.
\<close>

theorem updateInventory_negative_available:
  "inventory_ok \<lparr>quantity = 10, reserved = 8, available = 2\<rparr>
   \<and> updateInventory \<lparr>quantity = 10, reserved = 8, available = 2\<rparr> 5
       = Inr \<lparr>quantity = 5, reserved = 8, available = - 3\<rparr>
   \<and> \<not> inventory_ok \<lparr>quantity = 5, reserved = 8, available = - 3\<rparr>"
  by (simp add: inventory_ok_def updateInventory_def save_def validate_inventory_def pre_save_def)

text \<open>
  \<^verbatim>\<open>cancelOrder\<close> refuses only the shipped and the delivered orders: an order that is
  cancelled already is cancelled again, and its quantities are released again.
\<close>

lemma cancel_twice_releases_twice:
  "cancelOrder [''p1'' \<mapsto> \<lparr>quantity = 10, reserved = 8, available = 2\<rparr>]
      (Some (cancelled, [(''p1'', 3)]))
     = ([''p1'' \<mapsto> \<lparr>quantity = 10, reserved = 5, available = 5\<rparr>], Inr cancelled)"
  by (simp add: cancelOrder_def save_def validate_inventory_def pre_save_def)

end
